theory Spec2Isabelle
  imports Complex_Main "HOL-Library.Char_ord" "HOL-Library.List_Lexorder"
    "HOL-Library.Product_Lexorder" "HOL-Library.Option_ord" "HOL-Library.Sublist"
begin

section \<open>Shape differences between two fonts (nototools/shape\_diff.py)\<close>

text \<open>
  A shallow embedding of \<^verbatim>\<open>ShapeDiffFinder\<close>. The module is Python 2 (it calls
  \<^verbatim>\<open>unichr\<close> and has no \<^verbatim>\<open>from __future__ import division\<close>), so \<^verbatim>\<open>/\<close> on two
  ints is floor division, \<^verbatim>\<open>sorted\<close> orders tuples of mixed types, and
  \<^verbatim>\<open>dict.items()\<close> returns a list.
\<close>

subsection \<open>Python values\<close>

text \<open>
  The exceptions the module can raise. A method that raises leaves the objects it has
  mutated as they are, so the stateful methods below return the state next to the
  exception.
\<close>

datatype error =
    NameError | AttributeError | ZeroDivisionError | AssertionError | CalledProcessError
  | IndexError | ValueError | TypeError | IOError | OSError

text \<open>
  A Python number is an unbounded int or a float. On ints the model is exact. A float
  is carried as the rational it stands for; comparisons of floats are exact, but the
  arithmetic on a float operand is idealised: rounding, overflow (also of an int too
  large to convert), infinities and NaN are not modelled. The theorems about the two
  metrics are therefore stated for int operands only. Glyph areas come from
  \<^verbatim>\<open>GlyphAreaPen.unload()\<close>, which is not part of the module; they are signed (a contour
  drawn in the opposite direction counts negative).
\<close>

datatype pynum = PInt int | PFloat rat

fun num_val :: "pynum \<Rightarrow> rat" where
  "num_val (PInt i) = of_int i"
| "num_val (PFloat r) = r"

text \<open>Truth value of a number, and \<^verbatim>\<open>a or b\<close>, which returns one of its operands.\<close>

definition py_truth :: "pynum \<Rightarrow> bool" where
  "py_truth a = (num_val a \<noteq> 0)"

definition py_or :: "pynum \<Rightarrow> pynum \<Rightarrow> pynum" where
  "py_or a b = (if py_truth a then a else b)"

text \<open>Comparison is by numeric value, also between an int and a float.\<close>

definition py_lt :: "pynum \<Rightarrow> pynum \<Rightarrow> bool" where
  "py_lt a b = (num_val a < num_val b)"

definition py_ne :: "pynum \<Rightarrow> pynum \<Rightarrow> bool" where
  "py_ne a b = (num_val a \<noteq> num_val b)"

text \<open>
  \<^verbatim>\<open>min(a, b)\<close> and \<^verbatim>\<open>max(a, b)\<close> keep the first argument unless the second is strictly
  smaller (larger).
\<close>

definition py_min :: "pynum \<Rightarrow> pynum \<Rightarrow> pynum" where
  "py_min a b = (if py_lt b a then b else a)"

definition py_max :: "pynum \<Rightarrow> pynum \<Rightarrow> pynum" where
  "py_max a b = (if py_lt a b then b else a)"

fun py_sub :: "pynum \<Rightarrow> pynum \<Rightarrow> pynum" where
  "py_sub (PInt i) (PInt j) = PInt (i - j)"
| "py_sub a b = PFloat (num_val a - num_val b)"

fun py_abs :: "pynum \<Rightarrow> pynum" where
  "py_abs (PInt i) = PInt \<bar>i\<bar>"
| "py_abs (PFloat r) = PFloat \<bar>r\<bar>"

text \<open>
  Python 2 division: floor division on two ints, true division as soon as one operand
  is a float, \<^verbatim>\<open>ZeroDivisionError\<close> on a zero divisor of either kind.
\<close>

fun py_div :: "pynum \<Rightarrow> pynum \<Rightarrow> error + pynum" where
  "py_div (PInt i) (PInt j) = (if j = 0 then Inl ZeroDivisionError else Inr (PInt (i div j)))"
| "py_div a b =
     (if num_val b = 0 then Inl ZeroDivisionError else Inr (PFloat (num_val a / num_val b)))"

subsection \<open>The two metrics\<close>

text \<open>
  \<^verbatim>\<open>
  def _calc_diff(self, vals):
      a, b = vals
      return abs(a - b)

  def _calc_ratio(self, vals):
      a, b = vals
      if not (a or b):
          return 0
      return 1 - min(a, b) / max(a, b)
  \<close>
  (Isabelle names cannot start with an underscore.)
\<close>

definition calc_diff :: "pynum \<times> pynum \<Rightarrow> pynum" where
  "calc_diff vals = (case vals of (a, b) \<Rightarrow> py_abs (py_sub a b))"

definition calc_ratio :: "pynum \<times> pynum \<Rightarrow> error + pynum" where
  "calc_ratio vals =
     (case vals of (a, b) \<Rightarrow>
        if \<not> py_truth (py_or a b) then Inr (PInt 0)
        else (case py_div (py_min a b) (py_max a b) of
                Inl e \<Rightarrow> Inl e
              | Inr q \<Rightarrow> Inr (py_sub (PInt 1) q)))"

subsection \<open>Strings\<close>

text \<open>
  Python 2 \<^verbatim>\<open>str\<close> is a byte string, as \<^typ>\<open>string\<close> is. \<^verbatim>\<open>str(n)\<close> and \<^verbatim>\<open>'%d' % n\<close> of
  an int are its decimal digits; \<^verbatim>\<open>'%X'\<close> gives upper-case hexadecimal digits.
\<close>

definition digit_char :: "nat \<Rightarrow> char" where
  "digit_char d = ''0123456789ABCDEF'' ! d"

fun str_nat :: "nat \<Rightarrow> string" where
  "str_nat n = (if n < 10 then [digit_char n] else str_nat (n div 10) @ [digit_char (n mod 10)])"

declare str_nat.simps [simp del]

definition str_int :: "int \<Rightarrow> string" where
  "str_int i = (if i < 0 then CHR ''-'' # str_nat (nat (- i)) else str_nat (nat i))"

fun hex_nat :: "nat \<Rightarrow> string" where
  "hex_nat n = (if n < 16 then [digit_char n] else hex_nat (n div 16) @ [digit_char (n mod 16)])"

declare hex_nat.simps [simp del]

text \<open>\<^verbatim>\<open>'0x%04X' % v\<close>: at least four hexadecimal digits, padded with zeros on the left.\<close>

definition fmt_0x04X :: "nat \<Rightarrow> string" where
  "fmt_0x04X v = (let h = hex_nat v in ''0x'' @ replicate (4 - length h) CHR ''0'' @ h)"

text \<open>
  \<^verbatim>\<open>str\<close> of a number. The text Python prints for a float (\<^verbatim>\<open>'%.12g'\<close> of a binary
  double) is not modelled: the parameter \<open>float_str\<close> stands for it.
\<close>

fun py_str :: "(rat \<Rightarrow> string) \<Rightarrow> pynum \<Rightarrow> string" where
  "py_str float_str (PInt i) = str_int i"
| "py_str float_str (PFloat r) = float_str r"

text \<open>\<^verbatim>\<open>sep.join(xs)\<close>.\<close>

fun join :: "string \<Rightarrow> string list \<Rightarrow> string" where
  "join sep [] = []"
| "join sep [x] = x"
| "join sep (x # y # ys) = x @ sep @ join sep (y # ys)"

text \<open>
  \<^verbatim>\<open>repr\<close> of a byte string, which \<^verbatim>\<open>'%s' % a_list\<close> applies to the elements of the list:
  single quotes unless the string has a single and no double quote; the quote and the
  backslash escaped; tab, newline and carriage return as \<^verbatim>\<open>\t \n \r\<close>; every other byte
  outside the printable ASCII range as \<^verbatim>\<open>\xhh\<close> with lower-case digits.
\<close>

definition lower_hex :: "nat \<Rightarrow> char" where
  "lower_hex d = ''0123456789abcdef'' ! d"

definition repr_char :: "char \<Rightarrow> char \<Rightarrow> string" where
  "repr_char quote c =
     (if c = quote \<or> c = CHR 0x5C then [CHR 0x5C, c]
      else if c = CHR 0x09 then [CHR 0x5C, CHR ''t'']
      else if c = CHR 0x0A then [CHR 0x5C, CHR ''n'']
      else if c = CHR 0x0D then [CHR 0x5C, CHR ''r'']
      else if c < CHR 0x20 \<or> CHR 0x7F \<le> c
        then [CHR 0x5C, CHR ''x'', lower_hex (of_char c div 16), lower_hex (of_char c mod 16)]
      else [c])"

definition py_repr :: "string \<Rightarrow> string" where
  "py_repr s =
     (let quote = (if CHR 0x27 \<in> set s \<and> CHR 0x22 \<notin> set s then CHR 0x22 else CHR 0x27)
      in quote # concat (map (repr_char quote) s) @ [quote])"

definition str_list :: "string list \<Rightarrow> string" where
  "str_list xs = ''['' @ join '', '' (map py_repr xs) @ '']''"

text \<open>
  \<^verbatim>\<open>fmt % args\<close> for a format whose only conversion is \<^verbatim>\<open>%s\<close>, the arguments already
  converted by \<^verbatim>\<open>str\<close>: \<^verbatim>\<open>TypeError\<close> when the format has more conversions than there
  are arguments (not enough arguments for format string) or fewer (not all arguments
  converted).
\<close>

fun py_format :: "string \<Rightarrow> string list \<Rightarrow> error + string" where
  "py_format [] args = (if args = [] then Inr [] else Inl TypeError)"
| "py_format [c] args = (if args = [] then Inr [c] else Inl TypeError)"
| "py_format (c # d # rest) args =
     (if c = CHR ''%'' \<and> d = CHR ''s''
      then (case args of
              [] \<Rightarrow> Inl TypeError
            | a # as \<Rightarrow> (case py_format rest as of Inl e \<Rightarrow> Inl e | Inr r \<Rightarrow> Inr (a @ r)))
      else (case py_format (d # rest) args of Inl e \<Rightarrow> Inl e | Inr r \<Rightarrow> Inr (c # r)))"

text \<open>Whitespace as \<^verbatim>\<open>str.split()\<close> and \<^verbatim>\<open>str.strip()\<close> see it.\<close>

definition is_space :: "char \<Rightarrow> bool" where
  "is_space c = (c = CHR '' '' \<or> c = CHR 0x09 \<or> c = CHR 0x0A \<or> c = CHR 0x0B
                 \<or> c = CHR 0x0C \<or> c = CHR 0x0D)"

definition py_strip :: "string \<Rightarrow> string" where
  "py_strip s = rev (dropWhile is_space (rev (dropWhile is_space s)))"

fun split_ws :: "string \<Rightarrow> string \<Rightarrow> string list" where
  "split_ws cur [] = (if cur = [] then [] else [cur])"
| "split_ws cur (c # cs) =
     (if is_space c then (if cur = [] then split_ws [] cs else cur # split_ws [] cs)
      else split_ws (cur @ [c]) cs)"

definition py_split :: "string \<Rightarrow> string list" where
  "py_split s = split_ws [] s"

text \<open>\<^verbatim>\<open>file.readlines()\<close>: the lines of the text, each with its newline.\<close>

fun read_lines :: "string \<Rightarrow> string \<Rightarrow> string list" where
  "read_lines cur [] = (if cur = [] then [] else [cur])"
| "read_lines cur (c # cs) =
     (if c = CHR 0x0A then (cur @ [c]) # read_lines [] cs else read_lines (cur @ [c]) cs)"

definition readlines :: "string \<Rightarrow> string list" where
  "readlines text = read_lines [] text"

text \<open>
  \<^verbatim>\<open>int(s)\<close>: surrounding whitespace, an optional sign, then decimal digits and nothing
  else; \<^verbatim>\<open>ValueError\<close> otherwise.
\<close>

definition is_digit :: "char \<Rightarrow> bool" where
  "is_digit c = (CHR ''0'' \<le> c \<and> c \<le> CHR ''9'')"

definition digits_val :: "string \<Rightarrow> nat" where
  "digits_val s = foldl (\<lambda>a c. 10 * a + (of_char c - 48)) 0 s"

definition py_int :: "string \<Rightarrow> error + int" where
  "py_int s =
     (case py_strip s of
        [] \<Rightarrow> Inl ValueError
      | c # cs \<Rightarrow>
          if c = CHR ''-'' \<or> c = CHR ''+''
          then (if cs \<noteq> [] \<and> list_all is_digit cs
                then Inr ((if c = CHR ''-'' then - 1 else 1) * int (digits_val cs))
                else Inl ValueError)
          else if list_all is_digit (c # cs) then Inr (int (digits_val (c # cs)))
          else Inl ValueError)"

text \<open>\<^verbatim>\<open>os.path.basename\<close> and \<^verbatim>\<open>os.path.join\<close> of two components (POSIX).\<close>

definition basename :: "string \<Rightarrow> string" where
  "basename p = rev (takeWhile (\<lambda>c. c \<noteq> CHR ''/'') (rev p))"

definition path_join :: "string \<Rightarrow> string \<Rightarrow> string" where
  "path_join a b =
     (if b \<noteq> [] \<and> hd b = CHR ''/'' then b
      else if a = [] \<or> last a = CHR ''/'' then a @ b
      else a @ ''/'' @ b)"

subsection \<open>Sets and dicts\<close>

text \<open>
  A Python set of names is a list without duplicates; its order stands for the order in
  which Python iterates over the set, which the language leaves open. A dict is an
  association list with one entry per key: \<^verbatim>\<open>d[k] = v\<close> replaces the entry of \<open>k\<close> or
  adds one, and \<^verbatim>\<open>d.items()\<close> is the list. No theorem below depends on these orders
  beyond what it states.
\<close>

definition py_set :: "string list \<Rightarrow> string list" where
  "py_set xs = remdups xs"

definition set_minus :: "string list \<Rightarrow> string list \<Rightarrow> string list" where
  "set_minus xs ys = filter (\<lambda>x. x \<notin> set ys) xs"

definition set_inter :: "string list \<Rightarrow> string list \<Rightarrow> string list" where
  "set_inter xs ys = filter (\<lambda>x. x \<in> set ys) xs"

fun dict_set :: "'k \<Rightarrow> 'v \<Rightarrow> ('k \<times> 'v) list \<Rightarrow> ('k \<times> 'v) list" where
  "dict_set k v [] = [(k, v)]"
| "dict_set k v ((k', v') # d) = (if k = k' then (k, v) # d else (k', v') # dict_set k v d)"

subsection \<open>Fonts, statistics and the finder\<close>

text \<open>
  What the module reads from a parsed font (\<^verbatim>\<open>fontTools.ttLib.TTFont\<close>, outside the
  module): its glyph order; for a glyph name, the area that a \<^verbatim>\<open>GlyphAreaPen\<close> unloads
  after the glyph is drawn into it; and the map from glyph names to code points that
  \<^verbatim>\<open>hb_input.build_reverse_cmap\<close> returns for it.
\<close>

record font =
  glyphOrder :: "string list"
  glyphArea :: "string \<Rightarrow> pynum"
  cmap_of_name :: "string \<rightharpoonup> nat"

text \<open>
  A record of the \<^verbatim>\<open>compared\<close> log is the tuple \<^verbatim>\<open>(metric, name, basepath)\<close>, followed
  by the two areas in area mode: the last component holds these, \<open>[]\<close> or \<open>[a, b]\<close>.
  An entry of \<^verbatim>\<open>unicode_mismatch\<close> pairs the label with the items of the \<^verbatim>\<open>mismatched\<close>
  dict; \<^verbatim>\<open>None\<close> is a name without a code point.
\<close>

type_synonym diff_record = "pynum \<times> string \<times> string \<times> pynum list"

type_synonym mismatch = "string \<times> (nat option \<times> nat option)"

record session_stats =
  compared :: "diff_record list"
  untested :: "string list"
  unmatched :: "(string \<times> string list \<times> string list) list"
  unicode_mismatch :: "(string \<times> mismatch list) list"

text \<open>
  The attributes of a \<^verbatim>\<open>ShapeDiffFinder\<close>. \<^verbatim>\<open>names\<close> and \<^verbatim>\<open>reverse_cmap\<close> do not exist
  until they are built (\<^verbatim>\<open>hasattr\<close> is false): \<open>None\<close>. \<^verbatim>\<open>stats\<close> is the caller's dict,
  shared by reference: what the caller sees afterwards is the field \<open>stats\<close>.
\<close>

record finder =
  paths :: "string \<times> string"
  fonts :: "font \<times> font"
  ratio_diffs :: bool
  stats :: session_stats
  basepath :: string
  names :: "string list option"
  reverse_cmap :: "(string \<rightharpoonup> nat) option"

text \<open>
  \<^verbatim>\<open>
  def __init__(self, file_a, file_b, stats, ratio_diffs=False):
      self.paths = file_a, file_b
      self.fonts = [TTFont(f) for f in self.paths]
      self.ratio_diffs = ratio_diffs

      stats['compared'] = []
      stats['untested'] = []
      stats['unmatched'] = []
      stats['unicode_mismatch'] = []
      self.stats = stats

      self.basepath = os.path.basename(file_a)
  \<close>
  \<open>TTFont\<close> stands for the parser: the font behind a path.
\<close>

definition init :: "(string \<Rightarrow> font) \<Rightarrow> string \<Rightarrow> string \<Rightarrow> session_stats \<Rightarrow> bool \<Rightarrow> finder" where
  "init TTFont file_a file_b st ratio =
     \<lparr>paths = (file_a, file_b),
      fonts = (TTFont file_a, TTFont file_b),
      ratio_diffs = ratio,
      stats = st\<lparr>compared := [], untested := [], unmatched := [], unicode_mismatch := []\<rparr>,
      basepath = basename file_a,
      names = None,
      reverse_cmap = None\<rparr>"

subsection \<open>The glyph-set reconciler\<close>

text \<open>
  \<^verbatim>\<open>
  def build_names(self):
      if hasattr(self, 'names'):
          return

      stats = self.stats['unmatched']
      names_a, names_b = [set(f.getGlyphOrder()) for f in self.fonts]
      if names_a != names_b:
          stats.append((self.basepath, names_a - names_b, names_b - names_a))
      self.names = names_a & names_b
  \<close>
\<close>

definition build_names :: "finder \<Rightarrow> finder" where
  "build_names f =
     (case names f of
        Some _ \<Rightarrow> f
      | None \<Rightarrow>
          (let names_a = py_set (glyphOrder (fst (fonts f)));
               names_b = py_set (glyphOrder (snd (fonts f)));
               st = stats f;
               st' = (if set names_a \<noteq> set names_b
                      then st\<lparr>unmatched := unmatched st @
                             [(basepath f, set_minus names_a names_b, set_minus names_b names_a)]\<rparr>
                      else st)
           in f\<lparr>stats := st', names := Some (set_inter names_a names_b)\<rparr>))"

subsection \<open>The reverse code point map\<close>

text \<open>
  \<^verbatim>\<open>
  def build_reverse_cmap(self):
      if hasattr(self, 'reverse_cmap'):
          return

      stats = self.stats['unicode_mismatch']
      reverse_cmaps = [hb_input.build_reverse_cmap(f) for f in self.fonts]
      mismatched = {}
      for name in self.names:
          unival_a, unival_b = [m.get(name) for m in reverse_cmaps]
          if unival_a != unival_b:
              mismatched[name] = (unival_a, unival_b)
      if mismatched:
          stats.append((self.basepath, mismatched.items()))

      # return cmap with only names used consistently between fonts
      self.reverse_cmap = {n: v for n, v in reverse_cmaps[0].items()
                           if n in self.names and n not in mismatched}
  \<close>
  Reading \<^verbatim>\<open>self.names\<close> before \<^verbatim>\<open>build_names\<close> has run raises \<^verbatim>\<open>AttributeError\<close>;
  nothing has been changed by then.
\<close>

definition cmap_mismatches :: "(string \<rightharpoonup> nat) \<Rightarrow> (string \<rightharpoonup> nat) \<Rightarrow> string list \<Rightarrow> mismatch list" where
  "cmap_mismatches cm_a cm_b ns =
     foldl (\<lambda>mismatched name.
              let unival_a = cm_a name; unival_b = cm_b name
              in if unival_a \<noteq> unival_b then dict_set name (unival_a, unival_b) mismatched
                 else mismatched)
       [] ns"

definition build_reverse_cmap :: "finder \<Rightarrow> error + finder" where
  "build_reverse_cmap f =
     (case reverse_cmap f of
        Some _ \<Rightarrow> Inr f
      | None \<Rightarrow>
          (case names f of
             None \<Rightarrow> Inl AttributeError
           | Some ns \<Rightarrow>
               (let cm_a = cmap_of_name (fst (fonts f));
                    cm_b = cmap_of_name (snd (fonts f));
                    mismatched = cmap_mismatches cm_a cm_b ns;
                    st = stats f;
                    st' = (if mismatched \<noteq> []
                           then st\<lparr>unicode_mismatch := unicode_mismatch st @
                                  [(basepath f, mismatched)]\<rparr>
                           else st)
                in Inr (f\<lparr>stats := st',
                          reverse_cmap :=
                            Some (\<lambda>n. if n \<in> set ns \<and> n \<notin> fst ` set mismatched
                                       then cm_a n else None)\<rparr>))))"

subsection \<open>The area diff\<close>

text \<open>
  \<^verbatim>\<open>
  def find_area_diffs(self):
      self.build_names()

      glyph_sets =[f.getGlyphSet() for f in self.fonts]
      glyph_set_a, glyph_set_b = glyph_sets
      pen_a, pen_b = [GlyphAreaPen(glyph_set) for glyph_set in glyph_sets]

      mismatched = {}
      for name in self.names:
          glyph_set_a[name].draw(pen_a)
          area_a = pen_a.unload()
          glyph_set_b[name].draw(pen_b)
          area_b = pen_b.unload()
          if area_a != area_b:
              mismatched[name] = (area_a, area_b)

      stats = self.stats['compared']
      calc = self._calc_ratio if self.ratio_diffs else self._calc_diff
      for name, areas in mismatched.items():
          stats.append((calc(areas), name, self.basepath, area[0], area[1]))
  \<close>
\<close>

definition area_mismatches :: "font \<Rightarrow> font \<Rightarrow> string list \<Rightarrow> (string \<times> pynum \<times> pynum) list" where
  "area_mismatches font_a font_b ns =
     foldl (\<lambda>mismatched name.
              let area_a = glyphArea font_a name; area_b = glyphArea font_b name
              in if py_ne area_a area_b then dict_set name (area_a, area_b) mismatched
                 else mismatched)
       [] ns"

text \<open>
  The last loop. Python evaluates the components of the tuple from left to right:
  \<^verbatim>\<open>calc(areas)\<close> first, which may raise; then \<^verbatim>\<open>name\<close> and \<^verbatim>\<open>self.basepath\<close>; then
  \<^verbatim>\<open>area[0]\<close>, where \<^verbatim>\<open>area\<close> is bound neither in the method (its variables are
  \<^verbatim>\<open>area_a\<close>, \<^verbatim>\<open>area_b\<close> and \<^verbatim>\<open>areas\<close>) nor in the module: \<^verbatim>\<open>NameError\<close>. So the first
  iteration raises before \<^verbatim>\<open>append\<close> is called, and no later iteration runs.
\<close>

fun append_area_diffs ::
  "(pynum \<times> pynum \<Rightarrow> error + pynum) \<Rightarrow> string \<Rightarrow> (string \<times> pynum \<times> pynum) list
    \<Rightarrow> diff_record list \<Rightarrow> error option \<times> diff_record list" where
  "append_area_diffs calc bp [] entries = (None, entries)"
| "append_area_diffs calc bp ((name, areas) # rest) entries =
     (case calc areas of
        Inl e \<Rightarrow> (Some e, entries)
      | Inr metric \<Rightarrow> (Some NameError, entries))"

definition find_area_diffs :: "finder \<Rightarrow> error option \<times> finder" where
  "find_area_diffs f =
     (let f1 = build_names f in
      case names f1 of
        None \<Rightarrow> (Some AttributeError, f1)
      | Some ns \<Rightarrow>
          (let mismatched = area_mismatches (fst (fonts f1)) (snd (fonts f1)) ns;
               calc = (if ratio_diffs f1 then calc_ratio else (\<lambda>vals. Inr (calc_diff vals)))
           in case append_area_diffs calc (basepath f1) mismatched (compared (stats f1)) of
                (exc, entries) \<Rightarrow> (exc, f1\<lparr>stats := (stats f1)\<lparr>compared := entries\<rparr>\<rparr>)))"

subsection \<open>Files and external tools\<close>

text \<open>
  The rendered diff works through files and four external programs. The file system is
  a map from paths to contents. \<^verbatim>\<open>tempfile.mkstemp()\<close> creates an empty file under a name
  that did not exist: the names come from a counter, and a name that exists already is
  the case where Python gives up (\<^verbatim>\<open>IOError\<close>, no usable temporary file name found).
\<close>

record world =
  files :: "string \<rightharpoonup> string"
  tmp_count :: nat

definition make_tmp_path :: "world \<Rightarrow> error + string \<times> world" where
  "make_tmp_path w =
     (let path = ''/tmp/tmp'' @ str_nat (tmp_count w)
      in if files w path \<noteq> None then Inl IOError
         else Inr (path, w\<lparr>files := (files w)(path \<mapsto> []), tmp_count := Suc (tmp_count w)\<rparr>))"

definition write_file :: "string \<Rightarrow> string \<Rightarrow> world \<Rightarrow> world" where
  "write_file path content w = w\<lparr>files := (files w)(path \<mapsto> content)\<rparr>"

text \<open>\<^verbatim>\<open>open(path, 'a')\<close> creates the file when it is missing.\<close>

definition append_file :: "string \<Rightarrow> string \<Rightarrow> world \<Rightarrow> world" where
  "append_file path s w =
     w\<lparr>files := (files w)(path \<mapsto> (case files w path of None \<Rightarrow> [] | Some c \<Rightarrow> c) @ s)\<rparr>"

definition os_remove :: "string \<Rightarrow> world \<Rightarrow> error + world" where
  "os_remove path w =
     (if files w path = None then Inl OSError else Inr (w\<lparr>files := (files w)(path := None)\<rparr>))"

fun remove_all :: "string list \<Rightarrow> world \<Rightarrow> error option \<times> world" where
  "remove_all [] w = (None, w)"
| "remove_all (path # rest) w =
     (case os_remove path w of Inl e \<Rightarrow> (Some e, w) | Inr w' \<Rightarrow> remove_all rest w')"

text \<open>
  The programs are functions of what they read; a content \<open>None\<close> is a missing file.
  \<^item> \<open>input_from_name\<close>: \<^verbatim>\<open>HbInputGenerator(path, reverse_cmap).input_from_name(name)\<close>,
    the pair \<^verbatim>\<open>(features, text)\<close> or \<^verbatim>\<open>None\<close> (\<^verbatim>\<open>hb_input\<close> is outside the module);
  \<^item> \<open>hb_view\<close>: the image \<^verbatim>\<open>hb-view\<close> writes for a font size, features, font and text;
  \<^item> \<open>identify\<close>: the standard output of \<^verbatim>\<open>identify\<close> for a path and its content, or
    \<open>None\<close> when it exits with a non-zero status (\<^verbatim>\<open>check_output\<close> raises);
  \<^item> \<open>convert_extent\<close>: the image \<^verbatim>\<open>convert -extent geometry\<close> makes of an image;
  \<^item> \<open>convert_combine\<close>: the composite of two images written under \<^verbatim>\<open>render_path\<close>;
  \<^item> \<open>compare_AE\<close>: the comparison image of \<^verbatim>\<open>compare -metric AE\<close> and what it prints
    on standard error.
  The exit status of \<^verbatim>\<open>subprocess.call\<close> is not looked at by the module. A program that
  is not installed (\<^verbatim>\<open>OSError\<close> from \<^verbatim>\<open>subprocess\<close>) is not modelled.
\<close>

record tools =
  input_from_name :: "string \<Rightarrow> (string \<rightharpoonup> nat) \<Rightarrow> string \<Rightarrow> (string list \<times> string) option"
  hb_view :: "int \<Rightarrow> string list \<Rightarrow> string \<Rightarrow> string \<Rightarrow> string"
  identify :: "string \<Rightarrow> string option \<Rightarrow> string option"
  convert_extent :: "string \<Rightarrow> string option \<Rightarrow> string"
  convert_combine :: "string option \<Rightarrow> string option \<Rightarrow> string"
  compare_AE :: "string option \<Rightarrow> string option \<Rightarrow> string \<times> string"

subsection \<open>The rendered diff\<close>

text \<open>
  \<^verbatim>\<open>
  img_info = subprocess.check_output(['identify', a_png]).split()
  assert img_info[0] == a_png and img_info[1] == 'PNG'
  \<close>
\<close>

definition check_img_info :: "string list \<Rightarrow> string \<Rightarrow> error option" where
  "check_img_info img_info a_png =
     (case img_info of
        [] \<Rightarrow> Some IndexError
      | x0 # r \<Rightarrow>
          if x0 \<noteq> a_png then Some AssertionError
          else (case r of
                  [] \<Rightarrow> Some IndexError
                | x1 # _ \<Rightarrow> if x1 \<noteq> ''PNG'' then Some AssertionError else None))"

text \<open>
  The body of the loop over the glyph names (lines 96 to 143 of the module): the state
  is the statistics and the file system, \<open>rc\<close> the reverse map given to the two input
  generators, \<open>tmp\<close> the four temporary paths.
\<close>

definition render_glyph ::
  "tools \<Rightarrow> int \<Rightarrow> string option \<Rightarrow> string \<times> string \<Rightarrow> (string \<rightharpoonup> nat)
    \<Rightarrow> string \<times> string \<times> string \<times> string \<Rightarrow> string
    \<Rightarrow> session_stats \<times> world \<Rightarrow> error option \<times> session_stats \<times> world" where
  "render_glyph T font_size render_path ps rc tmp name sw =
     (case (ps, tmp, sw) of
        ((path_a, path_b), (a_png, b_png, cmp_png, diffs_filename), (st, w)) \<Rightarrow>
          let hb_args = input_from_name T path_a rc name;
              hb_args_b = input_from_name T path_b rc name
          in if hb_args \<noteq> hb_args_b then (Some AssertionError, st, w)
             else
               (case hb_args of
                  None \<Rightarrow> (None, st\<lparr>untested := untested st @ [name]\<rparr>, w)
                | Some (features, text) \<Rightarrow>
                    if text = [CHR 0x00] then (None, st, w)
                    else
                      let w1 = append_file diffs_filename (name @ [CHR 0x0A]) w;
                          w2 = write_file a_png (hb_view T font_size features path_a text) w1;
                          w3 = write_file b_png (hb_view T font_size features path_b text) w2
                      in (case identify T a_png (files w3 a_png) of
                            None \<Rightarrow> (Some CalledProcessError, st, w3)
                          | Some out \<Rightarrow>
                              let img_info = py_split out
                              in (case check_img_info img_info a_png of
                                    Some e \<Rightarrow> (Some e, st, w3)
                                  | None \<Rightarrow>
                                      if length img_info < 3 then (Some IndexError, st, w3)
                                      else
                                        let w4 = write_file b_png
                                                   (convert_extent T (img_info ! 2) (files w3 b_png)) w3;
                                            w5 = (case render_path of
                                                    None \<Rightarrow> w4
                                                  | Some dir \<Rightarrow>
                                                      if dir = [] then w4
                                                      else write_file (path_join dir (name @ ''.png''))
                                                             (convert_combine T (files w4 a_png) (files w4 b_png)) w4);
                                            w6 = append_file diffs_filename [] w5;
                                            res = compare_AE T (files w6 a_png) (files w6 b_png);
                                            w7 = write_file cmp_png (fst res) w6;
                                            w8 = append_file diffs_filename (snd res) w7
                                        in (None, st, w8)))))"

fun render_loop ::
  "(string \<Rightarrow> session_stats \<times> world \<Rightarrow> error option \<times> session_stats \<times> world)
    \<Rightarrow> string list \<Rightarrow> session_stats \<times> world \<Rightarrow> error option \<times> session_stats \<times> world" where
  "render_loop body [] sw = (None, sw)"
| "render_loop body (name # rest) sw =
     (case body name sw of
        (Some e, sw') \<Rightarrow> (Some e, sw')
      | (None, sw') \<Rightarrow> render_loop body rest sw')"

text \<open>
  \<^verbatim>\<open>
  diffs = [(lines[i].strip(), lines[i + 1].strip())
           for i in range(0, len(lines), 2)]
  \<close>
  \<^verbatim>\<open>lines[i + 1]\<close> raises \<^verbatim>\<open>IndexError\<close> when the number of lines is odd.
\<close>

fun pair_lines :: "string list \<Rightarrow> error + (string \<times> string) list" where
  "pair_lines [] = Inr []"
| "pair_lines [l] = Inl IndexError"
| "pair_lines (l # m # rest) =
     (case pair_lines rest of
        Inl e \<Rightarrow> Inl e
      | Inr ps \<Rightarrow> Inr ((py_strip l, py_strip m) # ps))"

text \<open>
  \<^verbatim>\<open>
  mismatched = {}
  for name, diff in diffs:
      if int(diff) != 0:
          mismatched[name] = int(diff)
  \<close>
\<close>

fun nonzero_diffs :: "(string \<times> string) list \<Rightarrow> (string \<times> int) list \<Rightarrow> error + (string \<times> int) list" where
  "nonzero_diffs [] mismatched = Inr mismatched"
| "nonzero_diffs ((name, diff) # rest) mismatched =
     (case py_int diff of
        Inl e \<Rightarrow> Inl e
      | Inr v \<Rightarrow>
          if v \<noteq> 0 then nonzero_diffs rest (dict_set name v mismatched)
          else nonzero_diffs rest mismatched)"

text \<open>
  \<^verbatim>\<open>find_rendered_diffs(self, font_size=256, render_path=None)\<close>, lines 79 to 162 of the
  module: the two builders, the four temporary files, the loop, the log read back and
  paired, the four files removed, the non-zero entries appended to \<^verbatim>\<open>compared\<close>.
\<close>

definition find_rendered_diffs ::
  "tools \<Rightarrow> int \<Rightarrow> string option \<Rightarrow> finder \<times> world \<Rightarrow> error option \<times> finder \<times> world" where
  "find_rendered_diffs T font_size render_path fw =
     (case fw of (f, w) \<Rightarrow>
      let f1 = build_names f in
      case build_reverse_cmap f1 of
        Inl e \<Rightarrow> (Some e, f1, w)
      | Inr f2 \<Rightarrow>
      (case (names f2, reverse_cmap f2) of
        (None, _) \<Rightarrow> (Some AttributeError, f2, w)
      | (Some _, None) \<Rightarrow> (Some AttributeError, f2, w)
      | (Some ordered_names, Some rc) \<Rightarrow>
      (case make_tmp_path w of
        Inl e \<Rightarrow> (Some e, f2, w)
      | Inr (a_png, w1) \<Rightarrow>
      (case make_tmp_path w1 of
        Inl e \<Rightarrow> (Some e, f2, w1)
      | Inr (b_png, w2) \<Rightarrow>
      (case make_tmp_path w2 of
        Inl e \<Rightarrow> (Some e, f2, w2)
      | Inr (cmp_png, w3) \<Rightarrow>
      (case make_tmp_path w3 of
        Inl e \<Rightarrow> (Some e, f2, w3)
      | Inr (diffs_filename, w4) \<Rightarrow>
      (case render_loop
              (render_glyph T font_size render_path (paths f2) rc
                 (a_png, b_png, cmp_png, diffs_filename))
              ordered_names (stats f2, w4) of
        (Some e, st, w5) \<Rightarrow> (Some e, f2\<lparr>stats := st\<rparr>, w5)
      | (None, st, w5) \<Rightarrow>
      (case files w5 diffs_filename of
        None \<Rightarrow> (Some IOError, f2\<lparr>stats := st\<rparr>, w5)
      | Some text \<Rightarrow>
      (case pair_lines (readlines text) of
        Inl e \<Rightarrow> (Some e, f2\<lparr>stats := st\<rparr>, w5)
      | Inr pairs \<Rightarrow>
      (case remove_all [a_png, b_png, cmp_png, diffs_filename] w5 of
        (Some e, w6) \<Rightarrow> (Some e, f2\<lparr>stats := st\<rparr>, w6)
      | (None, w6) \<Rightarrow>
      (case nonzero_diffs pairs [] of
        Inl e \<Rightarrow> (Some e, f2\<lparr>stats := st\<rparr>, w6)
      | Inr mismatched \<Rightarrow>
          (None,
           f2\<lparr>stats := st\<lparr>compared := compared st @
                  map (\<lambda>(name, diff). (PInt diff, name, basepath f2, [])) mismatched\<rparr>\<rparr>,
           w6))))))))))))"

subsection \<open>The report\<close>

text \<open>
  \<^verbatim>\<open>
  compared = sorted(
      s for s in stats['compared'] if s[1] not in whitelist)
  compared.reverse()
  fmt = '%s %s'
  if include_vals:
      fmt += ' (%s vs %s)'
  if multiple_fonts:
      fmt = '%s ' + fmt
  report.append('%d differences in glyph shape' % len(compared))
  for line in compared[:out_lines]:
      # print <font> <glyph> <vals>; stats are sorted in reverse priority
      line = tuple(reversed(line[:3])) + tuple(line[3:])
      # ignore font name if just one pair of fonts was compared
      if not multiple_fonts:
          line = line[1:]
      report.append(fmt % line)
  report.append('')
  \<close>
  \<^verbatim>\<open>sorted\<close> is stable and compares the tuples component by component, numbers by their
  value and a tuple that is a prefix of another before it: a stable sort on the key
  \<open>record_key\<close>.
\<close>

definition record_key :: "diff_record \<Rightarrow> rat \<times> string \<times> string \<times> rat list" where
  "record_key s =
     (case s of (metric, name, src, vals) \<Rightarrow> (num_val metric, name, src, map num_val vals))"

text \<open>\<^verbatim>\<open>xs[:n]\<close>; a negative \<open>n\<close> counts from the end.\<close>

definition slice_to :: "int \<Rightarrow> 'a list \<Rightarrow> 'a list" where
  "slice_to n xs = (if 0 \<le> n then take (nat n) xs else take (length xs - nat (- n)) xs)"

definition row_fmt :: "bool \<Rightarrow> bool \<Rightarrow> string" where
  "row_fmt include_vals multiple_fonts =
     (let fmt = ''%s %s'';
          fmt = (if include_vals then fmt @ '' (%s vs %s)'' else fmt)
      in if multiple_fonts then ''%s '' @ fmt else fmt)"

text \<open>The tuple given to the format, each component as \<^verbatim>\<open>%s\<close> prints it.\<close>

definition row_line :: "(rat \<Rightarrow> string) \<Rightarrow> bool \<Rightarrow> diff_record \<Rightarrow> string list" where
  "row_line float_str multiple_fonts s =
     (case s of (metric, name, src, vals) \<Rightarrow>
        let line = rev [py_str float_str metric, name, src] @ map (py_str float_str) vals
        in if \<not> multiple_fonts then tl line else line)"

fun format_rows :: "string \<Rightarrow> string list list \<Rightarrow> error + string list" where
  "format_rows fmt [] = Inr []"
| "format_rows fmt (line # rest) =
     (case py_format fmt line of
        Inl e \<Rightarrow> Inl e
      | Inr row \<Rightarrow>
          (case format_rows fmt rest of Inl e \<Rightarrow> Inl e | Inr rows \<Rightarrow> Inr (row # rows)))"

definition shown_records :: "session_stats \<Rightarrow> string set \<Rightarrow> diff_record list" where
  "shown_records st whitelist =
     rev (sort_key record_key (filter (\<lambda>s. fst (snd s) \<notin> whitelist) (compared st)))"

text \<open>
  \<^verbatim>\<open>
  for name in sorted(stats['untested']):
      report.append('not tested (unreachable?): %s' % name)
  report.append('')

  for font, set_a, set_b in stats['unmatched']:
      report.append("Glyph coverage doesn't match in %s" % font)
      report.append('  in A but not B: %s' % sorted(set_a))
      report.append('  in B but not A: %s' % sorted(set_b))
  report.append('')

  for font, mismatches in stats['unicode_mismatch']:
      report.append("Glyph unicode values don't match in %s" % font)
      for name, univals in sorted(mismatches):
          univals = [(('0x%04X' % v) if v else str(v)) for v in univals]
          report.append('  %s: %s in A, %s in B' %
                        (name, univals[0], univals[1]))
  report.append('')

  return '\n'.join(report)
  \<close>
\<close>

definition untested_lines :: "session_stats \<Rightarrow> string list" where
  "untested_lines st = map (\<lambda>name. ''not tested (unreachable?): '' @ name) (sort (untested st))"

definition unmatched_lines :: "string \<times> string list \<times> string list \<Rightarrow> string list" where
  "unmatched_lines e =
     (case e of (font, set_a, set_b) \<Rightarrow>
        [''Glyph coverage doesn'' @ [CHR 0x27] @ ''t match in '' @ font,
         ''  in A but not B: '' @ str_list (sort set_a),
         ''  in B but not A: '' @ str_list (sort set_b)])"

definition str_unival :: "nat option \<Rightarrow> string" where
  "str_unival v =
     (case v of
        None \<Rightarrow> ''None''
      | Some n \<Rightarrow> if n \<noteq> 0 then fmt_0x04X n else str_int 0)"

definition mismatch_lines :: "string \<times> mismatch list \<Rightarrow> string list" where
  "mismatch_lines e =
     (case e of (font, mismatches) \<Rightarrow>
        (''Glyph unicode values don'' @ [CHR 0x27] @ ''t match in '' @ font) #
        map (\<lambda>(name, univals).
               ''  '' @ name @ '': '' @ str_unival (fst univals) @ '' in A, '' @
               str_unival (snd univals) @ '' in B'')
          (sort mismatches))"

definition dump_report ::
  "(rat \<Rightarrow> string) \<Rightarrow> session_stats \<Rightarrow> string set \<Rightarrow> int \<Rightarrow> bool \<Rightarrow> bool \<Rightarrow> error + string list" where
  "dump_report float_str st whitelist out_lines include_vals multiple_fonts =
     (let shown = shown_records st whitelist;
          fmt = row_fmt include_vals multiple_fonts;
          header = str_int (int (length shown)) @ '' differences in glyph shape''
      in case format_rows fmt (map (row_line float_str multiple_fonts) (slice_to out_lines shown)) of
           Inl e \<Rightarrow> Inl e
         | Inr rows \<Rightarrow>
             Inr ([header] @ rows @ [[]]
                  @ untested_lines st @ [[]]
                  @ concat (map unmatched_lines (unmatched st)) @ [[]]
                  @ concat (map mismatch_lines (unicode_mismatch st)) @ [[]]))"

definition dump ::
  "(rat \<Rightarrow> string) \<Rightarrow> session_stats \<Rightarrow> string set \<Rightarrow> int \<Rightarrow> bool \<Rightarrow> bool \<Rightarrow> error + string" where
  "dump float_str st whitelist out_lines include_vals multiple_fonts =
     (case dump_report float_str st whitelist out_lines include_vals multiple_fonts of
        Inl e \<Rightarrow> Inl e
      | Inr report \<Rightarrow> Inr (join [CHR 0x0A] report))"

subsection \<open>Fixtures\<close>

text \<open>
  The scenario of the specification: the fonts share the glyphs \<open>a\<close>, \<open>b\<close> and \<open>c\<close>,
  font A has the extra glyph \<open>d\<close>, and the areas are 100 and 100 for \<open>a\<close>, 50 and 60 for
  \<open>b\<close>, 0 and 0 for \<open>c\<close>.
\<close>

definition empty_stats :: session_stats where
  "empty_stats = \<lparr>compared = [], untested = [], unmatched = [], unicode_mismatch = []\<rparr>"

definition scenario_font_a :: font where
  "scenario_font_a =
     \<lparr>glyphOrder = [''a'', ''b'', ''c'', ''d''],
      glyphArea = (\<lambda>n. if n = ''a'' then PInt 100 else if n = ''b'' then PInt 50 else PInt 0),
      cmap_of_name = [''a'' \<mapsto> 97, ''b'' \<mapsto> 98, ''d'' \<mapsto> 100]\<rparr>"

definition scenario_font_b :: font where
  "scenario_font_b =
     \<lparr>glyphOrder = [''a'', ''b'', ''c''],
      glyphArea = (\<lambda>n. if n = ''a'' then PInt 100 else if n = ''b'' then PInt 60 else PInt 0),
      cmap_of_name = [''a'' \<mapsto> 97, ''b'' \<mapsto> 66]\<rparr>"

definition scenario_TTFont :: "string \<Rightarrow> font" where
  "scenario_TTFont path = (if path = ''old/Sans.ttf'' then scenario_font_a else scenario_font_b)"

text \<open>
  A diff row as the report prints it: the label first when several font pairs were
  compared, then the glyph name and the metric, then the two raw values in parentheses
  when they are asked for.
\<close>

definition row_text :: "(rat \<Rightarrow> string) \<Rightarrow> bool \<Rightarrow> bool \<Rightarrow> diff_record \<Rightarrow> string" where
  "row_text float_str include_vals multiple_fonts s =
     (case s of (metric, name, src, vals) \<Rightarrow>
        (if multiple_fonts then src @ '' '' else []) @ name @ '' '' @ py_str float_str metric
        @ (if include_vals
           then '' ('' @ py_str float_str (vals ! 0) @ '' vs '' @ py_str float_str (vals ! 1) @ '')''
           else []))"

text \<open>A populated statistics structure, and a stand-in for the float printer.\<close>

definition sample_stats :: session_stats where
  "sample_stats =
     \<lparr>compared = [(PInt 10, ''b'', ''Sans.ttf'', [PInt 50, PInt 60]),
                  (PInt 7, ''x'', ''Sans.ttf'', [PInt 1, PInt 8]),
                  (PInt 12, ''a'', ''Serif.ttf'', [PInt 1, PInt 13])],
      untested = [''f''],
      unmatched = [(''Sans.ttf'', [''d''], [])],
      unicode_mismatch = [(''Sans.ttf'', [(''b'', (Some 98, Some 66))])]\<rparr>"

definition sample_float_str :: "rat \<Rightarrow> string" where
  "sample_float_str r = ''?''"

definition sample_text :: string where
  "sample_text = join [CHR 0x0A]
         [''2 differences in glyph shape'',
          ''Serif.ttf a 12 (1 vs 13)'',
          [],
          ''not tested (unreachable?): f'',
          [],
          ''Glyph coverage doesn'' @ [CHR 0x27] @ ''t match in Sans.ttf'',
          ''  in A but not B: ['' @ [CHR 0x27] @ ''d'' @ [CHR 0x27] @ '']'',
          ''  in B but not A: []'',
          [],
          ''Glyph unicode values don'' @ [CHR 0x27] @ ''t match in Sans.ttf'',
          ''  b: 0x0062 in A, 0x0042 in B'',
          []]"

lemmas scenario_defs =
  scenario_TTFont_def scenario_font_a_def scenario_font_b_def empty_stats_def

text \<open>The finder of the scenario once its names are built.\<close>

definition scenario_finder :: finder where
  "scenario_finder =
     build_names (init scenario_TTFont ''old/Sans.ttf'' ''new/Sans.ttf'' empty_stats False)"

text \<open>
  Each of the four logs of the second statistics starts with the same log of the first:
  nothing was removed or changed, entries were at most appended.
\<close>

definition logs_extend :: "session_stats \<Rightarrow> session_stats \<Rightarrow> bool" where
  "logs_extend st st' =
     (prefix (compared st) (compared st') \<and> prefix (untested st) (untested st')
      \<and> prefix (unmatched st) (unmatched st') \<and> prefix (unicode_mismatch st) (unicode_mismatch st'))"

text \<open>
  The shared names for which the input generator of font A gives no shaping input, and
  those that go through the external programs: an input whose text is not the null
  character.
\<close>

definition untested_names ::
  "tools \<Rightarrow> string \<times> string \<Rightarrow> (string \<rightharpoonup> nat) \<Rightarrow> string list \<Rightarrow> string list" where
  "untested_names T ps rc ns = filter (\<lambda>n. input_from_name T (fst ps) rc n = None) ns"



text \<open>
  The four paths that a run of the rendered diff takes from \<^verbatim>\<open>mkstemp\<close>, in the order
  \<^verbatim>\<open>a_png\<close>, \<^verbatim>\<open>b_png\<close>, \<^verbatim>\<open>cmp_png\<close>, \<^verbatim>\<open>diffs_filename\<close>.
\<close>

definition tmp_paths :: "world \<Rightarrow> string list" where
  "tmp_paths w = map (\<lambda>i. ''/tmp/tmp'' @ str_nat (tmp_count w + i)) [0, 1, 2, 3]"

text \<open>
  External programs for the scenario. With \<open>sample_tools\<close> the glyph \<open>c\<close> has no
  shaping input, \<^verbatim>\<open>compare\<close> prints 0 for the glyph \<open>a\<close> and 12 for any other. With
  \<open>faulty_tools\<close> the two input generators disagree on every glyph. The sample session
  is created over statistics that are already populated.
\<close>

definition sample_tools :: tools where
  "sample_tools =
     \<lparr>input_from_name = (\<lambda>path rc name. if name = ''c'' then None else Some ([''liga''], name)),
      hb_view = (\<lambda>font_size features path text. path @ '':'' @ text),
      identify = (\<lambda>path content. Some (path @ '' PNG 256x256 8-bit'')),
      convert_extent = (\<lambda>geometry content. case content of None \<Rightarrow> [] | Some img \<Rightarrow> img),
      convert_combine = (\<lambda>a b. []),
      compare_AE = (\<lambda>a b. ([], if a = Some ''old/Sans.ttf:a'' then ''0'' @ [CHR 0x0A]
                                else ''12'' @ [CHR 0x0A]))\<rparr>"

definition faulty_tools :: tools where
  "faulty_tools =
     sample_tools\<lparr>input_from_name :=
       (\<lambda>path rc name. if path = ''old/Sans.ttf'' then Some ([], name) else None)\<rparr>"

definition empty_world :: world where
  "empty_world = \<lparr>files = Map.empty, tmp_count = 0\<rparr>"

definition sample_session :: finder where
  "sample_session = init scenario_TTFont ''old/Sans.ttf'' ''new/Sans.ttf'' sample_stats False"

definition sample_outcome :: "error option \<times> finder \<times> world" where
  "sample_outcome = find_rendered_diffs sample_tools 256 None (sample_session, empty_world)"

definition faulty_outcome :: "error option \<times> finder \<times> world" where
  "faulty_outcome = find_rendered_diffs faulty_tools 256 None (sample_session, empty_world)"


section \<open>The ratio metric\<close>




text \<open>
  The case that the guard lets through: a zero area next to a negative one. The larger
  of the two is zero, and the division raises.
\<close>

lemma calc_ratio_zero_division:
  assumes "max i j = 0" and "min i j < 0"
  shows "calc_ratio (PInt i, PInt j) = Inl ZeroDivisionError"
  using assms
  by (auto simp: calc_ratio_def py_or_def py_truth_def py_min_def py_max_def py_lt_def
      min_def max_def split: if_splits)

lemma calc_ratio_zero_division_example:
  "calc_ratio (PInt (- 5), PInt 0) = Inl ZeroDivisionError"
  by (simp add: calc_ratio_zero_division)




section \<open>The glyph-set reconciler\<close>

lemma set_py_set: "set (py_set xs) = set xs"
  by (simp add: py_set_def)

lemma distinct_py_set: "distinct (py_set xs)"
  by (simp add: py_set_def)

lemma set_set_minus: "set (set_minus xs ys) = set xs - set ys"
  by (auto simp: set_minus_def)

lemma set_set_inter: "set (set_inter xs ys) = set xs \<inter> set ys"
  by (auto simp: set_inter_def)

lemma distinct_set_ops:
  "distinct xs \<Longrightarrow> distinct (set_minus xs ys)" "distinct xs \<Longrightarrow> distinct (set_inter xs ys)"
  by (simp_all add: set_minus_def set_inter_def)

lemma set_eq_list_all:
  "set xs = set ys \<longleftrightarrow> list_all (\<lambda>x. x \<in> set ys) xs \<and> list_all (\<lambda>y. y \<in> set xs) ys"
  by (auto simp: list_all_iff)

text \<open>The first call builds the names and may append one entry; a later call does nothing.\<close>

lemma build_names_first:
  assumes "names f = None"
  shows "names (build_names f) =
           Some (set_inter (py_set (glyphOrder (fst (fonts f)))) (py_set (glyphOrder (snd (fonts f)))))"
    and "stats (build_names f) =
           (stats f)\<lparr>unmatched := unmatched (stats f) @
              (if set (glyphOrder (fst (fonts f))) \<noteq> set (glyphOrder (snd (fonts f)))
               then [(basepath f,
                      set_minus (py_set (glyphOrder (fst (fonts f)))) (py_set (glyphOrder (snd (fonts f)))),
                      set_minus (py_set (glyphOrder (snd (fonts f)))) (py_set (glyphOrder (fst (fonts f)))))]
               else [])\<rparr>"
  using assms by (simp_all add: build_names_def Let_def set_py_set)

lemma build_names_memo: "names f = Some ns \<Longrightarrow> build_names f = f"
  by (simp add: build_names_def)

lemma build_names_names: "\<exists>ns. names (build_names f) = Some ns"
  by (cases "names f") (simp_all add: build_names_first build_names_memo)


lemma build_names_logs:
  "compared (stats (build_names f)) = compared (stats f)"
  "untested (stats (build_names f)) = untested (stats f)"
  "unicode_mismatch (stats (build_names f)) = unicode_mismatch (stats f)"
  "prefix (unmatched (stats f)) (unmatched (stats (build_names f)))"
  by (cases "names f"; simp add: build_names_def Let_def)+

text \<open>
  C5. In a session just created over two fonts, after \<^verbatim>\<open>build_names\<close> the shared names
  are the intersection of the two glyph-name sets; the \<^verbatim>\<open>unmatched\<close> log is non-empty
  exactly when the two sets differ, and it then holds the single entry of the label, the
  names only in A and the names only in B. \<^verbatim>\<open>build_names\<close> has no raising path: the
  function returns a finder for every input.
\<close>

theorem build_names_reconciles:
  assumes f: "f = build_names (init TTFont file_a file_b st ratio)"
    and A: "A = set (glyphOrder (TTFont file_a))"
    and B: "B = set (glyphOrder (TTFont file_b))"
  shows "(\<exists>ns. names f = Some ns \<and> distinct ns \<and> set ns = A \<inter> B)
       \<and> (unmatched (stats f) \<noteq> [] \<longleftrightarrow> A \<noteq> B)
       \<and> (A \<noteq> B \<longrightarrow>
            (\<exists>da db. unmatched (stats f) = [(basename file_a, da, db)]
                    \<and> set da = A - B \<and> set db = B - A))"
proof -
  let ?g = "init TTFont file_a file_b st ratio"
  have g: "names ?g = None" "fonts ?g = (TTFont file_a, TTFont file_b)"
    "basepath ?g = basename file_a" "unmatched (stats ?g) = []"
    by (simp_all add: init_def)
  note n = build_names_first [OF g(1)]
  have "\<exists>ns. names f = Some ns \<and> distinct ns \<and> set ns = A \<inter> B"
    using n(1) g(2) by (simp add: f A B set_set_inter set_py_set distinct_set_ops distinct_py_set)
  moreover have u: "unmatched (stats f) =
      (if A \<noteq> B then [(basename file_a,
          set_minus (py_set (glyphOrder (TTFont file_a))) (py_set (glyphOrder (TTFont file_b))),
          set_minus (py_set (glyphOrder (TTFont file_b))) (py_set (glyphOrder (TTFont file_a))))]
       else [])"
    using n(2) g by (simp add: f A B)
  moreover have "unmatched (stats f) \<noteq> [] \<longleftrightarrow> A \<noteq> B" using u by simp
  moreover have "A \<noteq> B \<longrightarrow> (\<exists>da db. unmatched (stats f) = [(basename file_a, da, db)]
                    \<and> set da = A - B \<and> set db = B - A)"
    using u by (simp add: set_set_minus set_py_set A B)
  ultimately show ?thesis by blast
qed

lemma scenario_names_differ:
  "set (glyphOrder (scenario_TTFont ''old/Sans.ttf''))
     \<noteq> set (glyphOrder (scenario_TTFont ''new/Sans.ttf''))"
proof -
  have "''d'' \<in> set (glyphOrder (scenario_TTFont ''old/Sans.ttf''))"
    by (simp add: scenario_defs)
  moreover have "''d'' \<notin> set (glyphOrder (scenario_TTFont ''new/Sans.ttf''))"
    by (simp add: scenario_defs)
  ultimately show ?thesis by blast
qed

theorem build_names_reconciles_witness:
  "set (glyphOrder (scenario_TTFont ''old/Sans.ttf''))
     \<noteq> set (glyphOrder (scenario_TTFont ''new/Sans.ttf''))
   \<and> names (build_names (init scenario_TTFont ''old/Sans.ttf'' ''new/Sans.ttf'' empty_stats False))
       = Some [''a'', ''b'', ''c'']
   \<and> unmatched (stats (build_names
        (init scenario_TTFont ''old/Sans.ttf'' ''new/Sans.ttf'' empty_stats False)))
       = [(''Sans.ttf'', [''d''], [])]
   \<and> unmatched (stats (build_names
        (init scenario_TTFont ''old/Sans.ttf'' ''new/Sans.ttf'' empty_stats False))) \<noteq> []"
proof -
  note d = scenario_names_differ
  have e: "names (build_names (init scenario_TTFont ''old/Sans.ttf'' ''new/Sans.ttf'' empty_stats False))
       = Some [''a'', ''b'', ''c'']"
    "unmatched (stats (build_names
        (init scenario_TTFont ''old/Sans.ttf'' ''new/Sans.ttf'' empty_stats False)))
       = [(''Sans.ttf'', [''d''], [])]"
    by (simp_all add: init_def build_names_def scenario_defs py_set_def set_eq_list_all
        set_minus_def set_inter_def basename_def Let_def)
  from build_names_reconciles [OF refl refl refl, of scenario_TTFont "''old/Sans.ttf''"
      "''new/Sans.ttf''" empty_stats False] d
  have "unmatched (stats (build_names
          (init scenario_TTFont ''old/Sans.ttf'' ''new/Sans.ttf'' empty_stats False))) \<noteq> []"
    by blast
  with d e show ?thesis by blast
qed

section \<open>The reverse code point map\<close>

lemma scenario_finder_eval:
  "names scenario_finder = Some [''a'', ''b'', ''c'']"
  "reverse_cmap scenario_finder = None"
  "basepath scenario_finder = ''Sans.ttf''"
  "fonts scenario_finder = (scenario_font_a, scenario_font_b)"
  "stats scenario_finder = empty_stats\<lparr>unmatched := [(''Sans.ttf'', [''d''], [])]\<rparr>"
  "paths scenario_finder = (''old/Sans.ttf'', ''new/Sans.ttf'')"
  by (simp_all add: scenario_finder_def init_def build_names_def scenario_defs py_set_def
        set_eq_list_all set_minus_def set_inter_def basename_def Let_def)

text \<open>
  Over names without duplicates, each disagreeing name is assigned once, so the dict
  built by the loop is the list of the disagreeing names with their two values.
\<close>

lemma dict_set_fresh: "k \<notin> fst ` set d \<Longrightarrow> dict_set k v d = d @ [(k, v)]"
  by (induction d) auto

lemma mismatch_fold:
  assumes "distinct ns" and "set ns \<inter> fst ` set acc = {}"
  shows "foldl (\<lambda>mismatched name.
              let unival_a = cm_a name; unival_b = cm_b name
              in if unival_a \<noteq> unival_b then dict_set name (unival_a, unival_b) mismatched
                 else mismatched) acc ns
         = acc @ map (\<lambda>n. (n, (cm_a n, cm_b n))) (filter (\<lambda>n. cm_a n \<noteq> cm_b n) ns)"
  using assms
proof (induction ns arbitrary: acc)
  case Nil
  then show ?case by simp
next
  case (Cons n ns)
  show ?case
  proof (cases "cm_a n = cm_b n")
    case True
    with Cons.prems Cons.IH [of acc] show ?thesis by (simp add: Let_def)
  next
    case False
    have fresh: "n \<notin> fst ` set acc" using Cons.prems by auto
    have "set ns \<inter> fst ` set (acc @ [(n, (cm_a n, cm_b n))]) = {}"
      using Cons.prems by auto
    with Cons.prems Cons.IH [of "acc @ [(n, (cm_a n, cm_b n))]"] False fresh
    show ?thesis by (simp add: Let_def dict_set_fresh)
  qed
qed

lemma cmap_mismatches_distinct:
  "distinct ns \<Longrightarrow>
     cmap_mismatches cm_a cm_b ns
       = map (\<lambda>n. (n, (cm_a n, cm_b n))) (filter (\<lambda>n. cm_a n \<noteq> cm_b n) ns)"
  unfolding cmap_mismatches_def using mismatch_fold [of ns "[]" cm_a cm_b] by simp

lemma count_list_distinct: "distinct xs \<Longrightarrow> x \<in> set xs \<Longrightarrow> count_list xs x = 1"
  by (induction xs) auto

text \<open>
  C6 as the code has it. On the first call, over the shared names \<open>ns\<close>, the map built
  has as keys exactly the shared names that both fonts map to the same code point; a
  shared name on which the fonts agree looks up as in font A, which is nothing when
  both fonts map it to nothing. A shared name on which the fonts disagree is not a key
  and occurs exactly once in the mismatch list, and the entry of the label and that
  list is appended to \<^verbatim>\<open>unicode_mismatch\<close> exactly when the list is not empty.
\<close>

theorem build_reverse_cmap_reconciles:
  assumes ns: "names f = Some ns" and d: "distinct ns" and fresh: "reverse_cmap f = None"
    and a: "cm_a = cmap_of_name (fst (fonts f))" and b: "cm_b = cmap_of_name (snd (fonts f))"
  shows "\<exists>f' rc ms.
           build_reverse_cmap f = Inr f' \<and> reverse_cmap f' = Some rc
         \<and> dom rc = {n \<in> set ns. cm_a n = cm_b n \<and> cm_a n \<noteq> None}
         \<and> (\<forall>n\<in>set ns. cm_a n = cm_b n \<longrightarrow> rc n = cm_a n)
         \<and> ms = map (\<lambda>n. (n, (cm_a n, cm_b n))) (filter (\<lambda>n. cm_a n \<noteq> cm_b n) ns)
         \<and> (\<forall>n\<in>set ns. cm_a n \<noteq> cm_b n \<longrightarrow> rc n = None \<and> count_list (map fst ms) n = 1)
         \<and> unicode_mismatch (stats f') =
             unicode_mismatch (stats f) @ (if ms = [] then [] else [(basepath f, ms)])"
proof -
  define ms where "ms = map (\<lambda>n. (n, (cm_a n, cm_b n))) (filter (\<lambda>n. cm_a n \<noteq> cm_b n) ns)"
  define rc where "rc = (\<lambda>n. if n \<in> set ns \<and> n \<notin> fst ` set ms then cm_a n else None)"
  define f' where "f' = f\<lparr>stats := (if ms \<noteq> []
                           then (stats f)\<lparr>unicode_mismatch := unicode_mismatch (stats f) @
                                  [(basepath f, ms)]\<rparr>
                           else stats f),
                          reverse_cmap := Some rc\<rparr>"
  have cm: "cmap_mismatches cm_a cm_b ns = ms"
    using cmap_mismatches_distinct [OF d] by (simp add: ms_def)
  have run: "build_reverse_cmap f = Inr f'"
    using ns fresh cm
    by (simp add: build_reverse_cmap_def Let_def a [symmetric] b [symmetric] f'_def rc_def)
  have keys: "fst ` set ms = {n \<in> set ns. cm_a n \<noteq> cm_b n}"
    by (auto simp: ms_def image_iff)
  have fst_ms: "map fst ms = filter (\<lambda>n. cm_a n \<noteq> cm_b n) ns"
    by (simp add: ms_def comp_def)
  have "dom rc = {n \<in> set ns. cm_a n = cm_b n \<and> cm_a n \<noteq> None}"
    unfolding rc_def keys by (auto simp: dom_def split: if_splits) metis+
  moreover have "\<forall>n\<in>set ns. cm_a n = cm_b n \<longrightarrow> rc n = cm_a n"
    unfolding rc_def keys by simp
  moreover have "\<forall>n\<in>set ns. cm_a n \<noteq> cm_b n \<longrightarrow> rc n = None \<and> count_list (map fst ms) n = 1"
    unfolding rc_def keys fst_ms using d by (simp add: count_list_distinct)
  moreover have "unicode_mismatch (stats f') =
             unicode_mismatch (stats f) @ (if ms = [] then [] else [(basepath f, ms)])"
    by (simp add: f'_def)
  moreover have "reverse_cmap f' = Some rc" by (simp add: f'_def)
  ultimately show ?thesis using run ms_def by blast
qed

theorem build_reverse_cmap_reconciles_witness:
  "names scenario_finder = Some [''a'', ''b'', ''c''] \<and> distinct [''a'', ''b'', ''c'']
   \<and> reverse_cmap scenario_finder = None
   \<and> (\<exists>f' rc. build_reverse_cmap scenario_finder = Inr f' \<and> reverse_cmap f' = Some rc
        \<and> rc ''a'' = Some 97 \<and> rc ''b'' = None \<and> rc ''c'' = None
        \<and> unicode_mismatch (stats f') = [(''Sans.ttf'', [(''b'', (Some 98, Some 66))])])"
proof -
  have h: "names scenario_finder = Some [''a'', ''b'', ''c'']" "distinct [''a'', ''b'', ''c'']"
    "reverse_cmap scenario_finder = None"
    by (simp_all add: scenario_finder_eval)
  from build_reverse_cmap_reconciles [OF h refl refl] obtain f' rc ms where
    run: "build_reverse_cmap scenario_finder = Inr f'" "reverse_cmap f' = Some rc"
    and eq: "\<forall>n\<in>set [''a'', ''b'', ''c''].
         cmap_of_name (fst (fonts scenario_finder)) n = cmap_of_name (snd (fonts scenario_finder)) n
         \<longrightarrow> rc n = cmap_of_name (fst (fonts scenario_finder)) n"
    and ne: "\<forall>n\<in>set [''a'', ''b'', ''c''].
         cmap_of_name (fst (fonts scenario_finder)) n \<noteq> cmap_of_name (snd (fonts scenario_finder)) n
         \<longrightarrow> rc n = None \<and> count_list (map fst ms) n = 1"
    and ms: "ms = map (\<lambda>n. (n, (cmap_of_name (fst (fonts scenario_finder)) n,
                              cmap_of_name (snd (fonts scenario_finder)) n)))
               (filter (\<lambda>n. cmap_of_name (fst (fonts scenario_finder)) n
                            \<noteq> cmap_of_name (snd (fonts scenario_finder)) n) [''a'', ''b'', ''c''])"
    and um: "unicode_mismatch (stats f') =
             unicode_mismatch (stats scenario_finder)
             @ (if ms = [] then [] else [(basepath scenario_finder, ms)])"
    by blast
  have ms': "ms = [(''b'', (Some 98, Some 66))]"
    unfolding ms by (simp add: scenario_finder_eval scenario_defs)
  have "rc ''a'' = Some 97" "rc ''b'' = None" "rc ''c'' = None"
    using eq ne by (simp_all add: scenario_finder_eval scenario_defs)
  moreover have "unicode_mismatch (stats f') = [(''Sans.ttf'', [(''b'', (Some 98, Some 66))])]"
    using um unfolding ms' by (simp add: scenario_finder_eval empty_stats_def)
  ultimately show ?thesis using h run by blast
qed

text \<open>
  C6 as stated fails: in the scenario the glyph \<open>c\<close> is shared and has no code point
  in either font, so the fonts agree on it, and the map built does not contain it: the
  comprehension runs over the items of font A's map.
\<close>

theorem build_reverse_cmap_unmapped_counterexample:
  "(case build_reverse_cmap scenario_finder of
      Inl e \<Rightarrow> False
    | Inr f \<Rightarrow>
        (case (names f, reverse_cmap f) of
           (Some ns, Some rc) \<Rightarrow>
             ''c'' \<in> set ns
             \<and> cmap_of_name scenario_font_a ''c'' = cmap_of_name scenario_font_b ''c''
             \<and> rc ''c'' = None
         | _ \<Rightarrow> False))"
  by (simp add: build_reverse_cmap_def scenario_finder_eval cmap_mismatches_def Let_def
      scenario_font_a_def scenario_font_b_def)

section \<open>The area diff\<close>

lemma append_area_diffs_keeps: "snd (append_area_diffs calc bp m entries) = entries"
  by (cases m) (auto split: sum.splits)

text \<open>Whatever the fonts, \<^verbatim>\<open>find_area_diffs\<close> appends nothing to \<^verbatim>\<open>compared\<close>.\<close>

lemma find_area_diffs_appends_nothing:
  "compared (stats (snd (find_area_diffs f))) = compared (stats f)"
proof (cases "names (build_names f)")
  case None
  then show ?thesis by (simp add: find_area_diffs_def Let_def build_names_logs)
next
  case (Some ns)
  then show ?thesis
    using append_area_diffs_keeps
    by (simp add: find_area_diffs_def Let_def build_names_logs split: prod.splits)
       (metis snd_conv)
qed

text \<open>
  C1 at the scenario of the specification, under the absolute policy. The glyph \<open>b\<close>
  has the areas 50 and 60, so the last loop runs: it raises \<^verbatim>\<open>NameError\<close> at
  \<^verbatim>\<open>area[0]\<close> and \<^verbatim>\<open>compared\<close> stays empty, where the claim expects the one record
  \<^verbatim>\<open>(10, b, label, 50, 60)\<close>.
\<close>

theorem find_area_diffs_scenario:
  "fst (find_area_diffs (init scenario_TTFont ''old/Sans.ttf'' ''new/Sans.ttf'' empty_stats False))
     = Some NameError
   \<and> compared (stats (snd (find_area_diffs
        (init scenario_TTFont ''old/Sans.ttf'' ''new/Sans.ttf'' empty_stats False)))) = []"
  by (simp add: find_area_diffs_def init_def build_names_def scenario_defs py_set_def
      set_eq_list_all set_minus_def set_inter_def area_mismatches_def py_ne_def calc_diff_def
      basename_def Let_def)

section \<open>The rendered diff\<close>

lemma logs_extend_refl: "logs_extend st st"
  by (simp add: logs_extend_def)

lemma logs_extend_trans: "logs_extend a b \<Longrightarrow> logs_extend b c \<Longrightarrow> logs_extend a c"
  by (auto simp: logs_extend_def intro: prefix_order.trans)

text \<open>
  One glyph: the statistics change only when the glyph has no shaping input, and no
  file disappears.
\<close>

lemma render_glyph_stats:
  assumes "render_glyph T fs rp ps rc tmp name (st, w) = (exc, st', w')"
  shows "st' = (if exc = None \<and> input_from_name T (fst ps) rc name = None
                then st\<lparr>untested := untested st @ [name]\<rparr> else st)"
  using assms
  by (cases ps; cases tmp)
     (auto simp: render_glyph_def Let_def split: if_splits option.splits prod.splits)

lemma render_glyph_files:
  assumes "render_glyph T fs rp ps rc tmp name (st, w) = (exc, st', w')"
  shows "files w p \<noteq> None \<Longrightarrow> files w' p \<noteq> None"
  using assms
  by (cases ps; cases tmp)
     (auto simp: render_glyph_def Let_def write_file_def append_file_def
           split: if_splits option.splits prod.splits)

lemma render_loop_stats:
  assumes "render_loop (render_glyph T fs rp ps rc tmp) ns (st, w) = (exc, st', w')"
  shows "compared st' = compared st \<and> unmatched st' = unmatched st
       \<and> unicode_mismatch st' = unicode_mismatch st
       \<and> prefix (untested st) (untested st')
       \<and> (exc = None \<longrightarrow> untested st' = untested st @ untested_names T ps rc ns)"
  using assms
proof (induction ns arbitrary: st w)
  case Nil
  then show ?case by (simp add: untested_names_def)
next
  case (Cons n ns)
  obtain e1 st1 w1 where g: "render_glyph T fs rp ps rc tmp n (st, w) = (e1, st1, w1)"
    by (cases "render_glyph T fs rp ps rc tmp n (st, w)") auto
  note s1 = render_glyph_stats [OF g]
  show ?case
  proof (cases e1)
    case (Some e)
    with Cons.prems g have "exc = Some e" "st' = st1" by simp_all
    with s1 Some show ?thesis by simp
  next
    case None
    with Cons.prems g have
      rest: "render_loop (render_glyph T fs rp ps rc tmp) ns (st1, w1) = (exc, st', w')"
      by simp
    from Cons.IH [OF rest] s1 None show ?thesis
      by (auto simp: untested_names_def dest: append_prefixD)
  qed
qed

lemma render_loop_files:
  assumes "render_loop (render_glyph T fs rp ps rc tmp) ns (st, w) = (exc, st', w')"
    and "files w p \<noteq> None"
  shows "files w' p \<noteq> None"
  using assms
proof (induction ns arbitrary: st w)
  case Nil
  then show ?case by simp
next
  case (Cons n ns)
  obtain e1 st1 w1 where g: "render_glyph T fs rp ps rc tmp n (st, w) = (e1, st1, w1)"
    by (cases "render_glyph T fs rp ps rc tmp n (st, w)") auto
  note f1 = render_glyph_files [OF g Cons.prems(2)]
  show ?case
  proof (cases e1)
    case (Some e)
    with Cons.prems g have "w' = w1" by simp
    with f1 show ?thesis by simp
  next
    case None
    with Cons.prems g have
      rest: "render_loop (render_glyph T fs rp ps rc tmp) ns (st1, w1) = (exc, st', w')"
      by simp
    from Cons.IH [OF rest f1] show ?thesis .
  qed
qed

text \<open>
  What each step of \<^verbatim>\<open>find_rendered_diffs\<close> can raise, and what it leaves.
\<close>

lemma make_tmp_path_Inr:
  assumes "make_tmp_path w = Inr (p, w1)"
  shows "p = ''/tmp/tmp'' @ str_nat (tmp_count w)" "files w p = None"
    "files w1 = (files w)(p \<mapsto> [])" "tmp_count w1 = Suc (tmp_count w)"
  using assms by (auto simp: make_tmp_path_def Let_def split: if_splits)

lemma make_tmp_path_Inl: "make_tmp_path w = Inl e \<Longrightarrow> e = IOError"
  by (auto simp: make_tmp_path_def Let_def split: if_splits)

lemma build_reverse_cmap_Inl: "build_reverse_cmap f = Inl e \<Longrightarrow> e = AttributeError"
  by (auto simp: build_reverse_cmap_def Let_def split: option.splits)

lemma build_reverse_cmap_Inr:
  assumes "build_reverse_cmap f = Inr f2"
  shows "paths f2 = paths f" "fonts f2 = fonts f" "basepath f2 = basepath f" "names f2 = names f"
    "compared (stats f2) = compared (stats f)" "untested (stats f2) = untested (stats f)"
    "unmatched (stats f2) = unmatched (stats f)"
    "prefix (unicode_mismatch (stats f)) (unicode_mismatch (stats f2))"
  using assms
  by (auto simp: build_reverse_cmap_def Let_def split: option.splits if_splits)

lemma pair_lines_Inl: "pair_lines ls = Inl e \<Longrightarrow> e = IndexError"
  by (induction ls rule: pair_lines.induct) (auto split: sum.splits)

lemma remove_all_Some: "remove_all ps w = (Some e, w') \<Longrightarrow> e = OSError"
  by (induction ps arbitrary: w) (auto simp: os_remove_def split: if_splits sum.splits)

lemma os_remove_Inr:
  assumes "os_remove q w = Inr w1"
  shows "files w1 q = None" "files w p = None \<Longrightarrow> files w1 p = None"
  using assms by (auto simp: os_remove_def split: if_splits)

lemma remove_all_keeps_missing:
  "remove_all qs w = (None, w') \<Longrightarrow> files w p = None \<Longrightarrow> files w' p = None"
proof (induction qs arbitrary: w)
  case Nil
  then show ?case by simp
next
  case (Cons q qs)
  from Cons.prems(1) obtain w1 where
    r: "os_remove q w = Inr w1" and rest: "remove_all qs w1 = (None, w')"
    by (auto split: sum.splits)
  from Cons.IH [OF rest os_remove_Inr(2) [OF r Cons.prems(2)]] show ?case .
qed

lemma remove_all_None:
  "remove_all ps w = (None, w') \<Longrightarrow> p \<in> set ps \<Longrightarrow> files w' p = None"
proof (induction ps arbitrary: w)
  case Nil
  then show ?case by simp
next
  case (Cons q ps)
  from Cons.prems(1) obtain w1 where
    r: "os_remove q w = Inr w1" and rest: "remove_all ps w1 = (None, w')"
    by (auto split: sum.splits)
  show ?case
  proof (cases "p = q")
    case True
    with remove_all_keeps_missing [OF rest os_remove_Inr(1) [OF r]] show ?thesis by simp
  next
    case False
    with Cons.prems(2) have "p \<in> set ps" by simp
    from Cons.IH [OF rest this] show ?thesis .
  qed
qed

lemma py_int_Inl: "py_int s = Inl e \<Longrightarrow> e = ValueError"
  by (auto simp: py_int_def split: list.splits if_splits)

lemma nonzero_diffs_Inl: "nonzero_diffs pairs acc = Inl e \<Longrightarrow> e = ValueError"
  by (induction pairs acc rule: nonzero_diffs.induct)
     (auto split: sum.splits if_splits dest: py_int_Inl)

text \<open>
  A run that returns has gone through every step; a run that ends in
  \<^verbatim>\<open>AssertionError\<close> or \<^verbatim>\<open>CalledProcessError\<close> has ended inside the loop.
\<close>

lemma find_rendered_diffs_normal:
  assumes "find_rendered_diffs T fs rp (f, w) = (None, f', w')"
  obtains f2 ns rc a b c d w1 w2 w3 w4 st w5 content pairs mismatched where
    "build_reverse_cmap (build_names f) = Inr f2" "names f2 = Some ns" "reverse_cmap f2 = Some rc"
    "make_tmp_path w = Inr (a, w1)" "make_tmp_path w1 = Inr (b, w2)"
    "make_tmp_path w2 = Inr (c, w3)" "make_tmp_path w3 = Inr (d, w4)"
    "render_loop (render_glyph T fs rp (paths f2) rc (a, b, c, d)) ns (stats f2, w4) = (None, st, w5)"
    "files w5 d = Some content" "pair_lines (readlines content) = Inr pairs"
    "remove_all [a, b, c, d] w5 = (None, w')" "nonzero_diffs pairs [] = Inr mismatched"
    "f' = f2\<lparr>stats := st\<lparr>compared := compared st @
                  map (\<lambda>(name, diff). (PInt diff, name, basepath f2, [])) mismatched\<rparr>\<rparr>"
  using assms unfolding find_rendered_diffs_def
  by (auto simp: Let_def simp del: remove_all.simps
      split: sum.splits option.splits prod.splits)

lemma not_loop_errors:
  "make_tmp_path w \<noteq> Inl AssertionError" "make_tmp_path w \<noteq> Inl CalledProcessError"
  "build_reverse_cmap f \<noteq> Inl AssertionError" "build_reverse_cmap f \<noteq> Inl CalledProcessError"
  "pair_lines ls \<noteq> Inl AssertionError" "pair_lines ls \<noteq> Inl CalledProcessError"
  "remove_all ps w \<noteq> (Some AssertionError, w')" "remove_all ps w \<noteq> (Some CalledProcessError, w')"
  "nonzero_diffs pairs acc \<noteq> Inl AssertionError" "nonzero_diffs pairs acc \<noteq> Inl CalledProcessError"
  using make_tmp_path_Inl build_reverse_cmap_Inl pair_lines_Inl remove_all_Some nonzero_diffs_Inl
  by fastforce+

lemma find_rendered_diffs_in_loop:
  assumes "find_rendered_diffs T fs rp (f, w) = (Some e, f', w')"
    and "e = AssertionError \<or> e = CalledProcessError"
  obtains f2 ns rc a b c d w1 w2 w3 w4 st where
    "build_reverse_cmap (build_names f) = Inr f2" "names f2 = Some ns" "reverse_cmap f2 = Some rc"
    "make_tmp_path w = Inr (a, w1)" "make_tmp_path w1 = Inr (b, w2)"
    "make_tmp_path w2 = Inr (c, w3)" "make_tmp_path w3 = Inr (d, w4)"
    "render_loop (render_glyph T fs rp (paths f2) rc (a, b, c, d)) ns (stats f2, w4) = (Some e, st, w')"
    "f' = f2\<lparr>stats := st\<rparr>"
  using assms unfolding find_rendered_diffs_def
  by (auto simp: Let_def not_loop_errors simp del: remove_all.simps
      split: sum.splits option.splits prod.splits)

lemma four_tmp_paths:
  assumes "make_tmp_path w = Inr (a, w1)" "make_tmp_path w1 = Inr (b, w2)"
    "make_tmp_path w2 = Inr (c, w3)" "make_tmp_path w3 = Inr (d, w4)"
  shows "tmp_paths w = [a, b, c, d]"
    and "files w4 a \<noteq> None" "files w4 b \<noteq> None" "files w4 c \<noteq> None" "files w4 d \<noteq> None"
    and "d \<noteq> a" "d \<noteq> b" "d \<noteq> c" "files w4 d = Some []"
proof -
  note A = make_tmp_path_Inr [OF assms(1)] and B = make_tmp_path_Inr [OF assms(2)]
    and C = make_tmp_path_Inr [OF assms(3)] and D = make_tmp_path_Inr [OF assms(4)]
  show "tmp_paths w = [a, b, c, d]"
    using A(1,4) B(1,4) C(1,4) D(1) by (simp add: tmp_paths_def numeral_2_eq_2 numeral_3_eq_3)
  show "files w4 a \<noteq> None" "files w4 b \<noteq> None" "files w4 c \<noteq> None" "files w4 d \<noteq> None"
    using A(3) B(3) C(3) D(3) by simp_all
  have a3: "files w3 a \<noteq> None" and b3: "files w3 b \<noteq> None" and c3: "files w3 c \<noteq> None"
    using A(3) B(3) C(3) by simp_all
  show "d \<noteq> a" "d \<noteq> b" "d \<noteq> c" using D(2) a3 b3 c3 by auto
  show "files w4 d = Some []" using D(3) by simp
qed

text \<open>
  C9 as the code has it. The four temporary files of a run are gone when the run
  returns: they are removed after the loop, once the log has been read. A run that is
  aborted inside the loop, by the assertion on the two shaping inputs or by a failed
  \<^verbatim>\<open>identify\<close>, leaves all four files in place: the module has no \<^verbatim>\<open>try\<close> around the
  loop.
\<close>

theorem temp_files_after_run:
  assumes run: "find_rendered_diffs T fs rp (f, w) = (exc, f', w')"
    and p: "p \<in> set (tmp_paths w)"
  shows "(exc = None \<longrightarrow> files w' p = None)
       \<and> (exc = Some AssertionError \<or> exc = Some CalledProcessError \<longrightarrow> files w' p \<noteq> None)"
proof (intro conjI impI)
  assume "exc = None"
  with run have "find_rendered_diffs T fs rp (f, w) = (None, f', w')" by simp
  then show "files w' p = None"
  proof (rule find_rendered_diffs_normal)
    fix a b c d w1 w2 w3 w4 w5
    assume t: "make_tmp_path w = Inr (a, w1)" "make_tmp_path w1 = Inr (b, w2)"
       "make_tmp_path w2 = Inr (c, w3)" "make_tmp_path w3 = Inr (d, w4)"
      and r: "remove_all [a, b, c, d] w5 = (None, w')"
    from p four_tmp_paths(1) [OF t] have "p \<in> set [a, b, c, d]" by simp
    from remove_all_None [OF r this] show "files w' p = None" .
  qed
next
  assume "exc = Some AssertionError \<or> exc = Some CalledProcessError"
  then obtain e where e: "exc = Some e" "e = AssertionError \<or> e = CalledProcessError" by auto
  with run have "find_rendered_diffs T fs rp (f, w) = (Some e, f', w')" by simp
  from this e(2) show "files w' p \<noteq> None"
  proof (rule find_rendered_diffs_in_loop)
    fix f2 ns rc a b c d w1 w2 w3 w4 st
    assume t: "make_tmp_path w = Inr (a, w1)" "make_tmp_path w1 = Inr (b, w2)"
       "make_tmp_path w2 = Inr (c, w3)" "make_tmp_path w3 = Inr (d, w4)"
      and l: "render_loop (render_glyph T fs rp (paths f2) rc (a, b, c, d)) ns (stats f2, w4)
                = (Some e, st, w')"
    note four = four_tmp_paths [OF t]
    from p four(1) have "p = a \<or> p = b \<or> p = c \<or> p = d" by simp
    with four(2-5) have "files w4 p \<noteq> None" by auto
    from render_loop_files [OF l this] show "files w' p \<noteq> None" .
  qed
qed

lemma find_rendered_diffs_result:
  assumes "find_rendered_diffs T fs rp (f, w) = (exc, f', w')"
  shows "f' = build_names f
       \<or> (\<exists>f2. build_reverse_cmap (build_names f) = Inr f2
            \<and> (f' = f2
               \<or> (\<exists>ns rc tmp w4 e st w5.
                     render_loop (render_glyph T fs rp (paths f2) rc tmp) ns (stats f2, w4) = (e, st, w5)
                     \<and> (f' = f2\<lparr>stats := st\<rparr>
                        \<or> (\<exists>xs. f' = f2\<lparr>stats := st\<lparr>compared := compared st @ xs\<rparr>\<rparr>)))))"
  using assms unfolding find_rendered_diffs_def
  by (simp add: Let_def del: remove_all.simps split: sum.splits option.splits prod.splits)
     blast+

lemma find_rendered_diffs_logs:
  assumes "find_rendered_diffs T fs rp (f, w) = (exc, f', w')"
  shows "logs_extend (stats f) (stats f')"
proof -
  have 1: "logs_extend (stats f) (stats (build_names f))"
    by (simp add: logs_extend_def build_names_logs)
  from find_rendered_diffs_result [OF assms] show ?thesis
  proof (elim disjE exE conjE)
    assume "f' = build_names f"
    with 1 show ?thesis by simp
  next
    fix f2 assume b: "build_reverse_cmap (build_names f) = Inr f2" and "f' = f2"
    with build_reverse_cmap_Inr [OF b] 1 show ?thesis
      by (simp add: logs_extend_def) (metis prefix_order.trans)
  next
    fix f2 ns rc tmp w4 e st w5
    assume b: "build_reverse_cmap (build_names f) = Inr f2"
      and l: "render_loop (render_glyph T fs rp (paths f2) rc tmp) ns (stats f2, w4) = (e, st, w5)"
      and "f' = f2\<lparr>stats := st\<rparr>"
    with build_reverse_cmap_Inr [OF b] render_loop_stats [OF l] 1 show ?thesis
      by (simp add: logs_extend_def) (metis prefix_order.trans)
  next
    fix f2 ns rc tmp w4 e st w5 xs
    assume b: "build_reverse_cmap (build_names f) = Inr f2"
      and l: "render_loop (render_glyph T fs rp (paths f2) rc tmp) ns (stats f2, w4) = (e, st, w5)"
      and "f' = f2\<lparr>stats := st\<lparr>compared := compared st @ xs\<rparr>\<rparr>"
    with build_reverse_cmap_Inr [OF b] render_loop_stats [OF l] 1 show ?thesis
      by (simp add: logs_extend_def) (metis prefix_order.trans)
  qed
qed

text \<open>
  The sample run, step by step.
\<close>

lemma sample_session_eval:
  "names sample_session = None" "reverse_cmap sample_session = None"
  "basepath sample_session = ''Sans.ttf''"
  "fonts sample_session = (scenario_font_a, scenario_font_b)"
  "stats sample_session = empty_stats"
  "paths sample_session = (''old/Sans.ttf'', ''new/Sans.ttf'')"
  by (simp_all add: sample_session_def init_def scenario_TTFont_def basename_def
        sample_stats_def empty_stats_def)

lemma sample_glyph_steps:
  "render_glyph sample_tools 256 None (''old/Sans.ttf'', ''new/Sans.ttf'') rc
     (''/tmp/tmp0'', ''/tmp/tmp1'', ''/tmp/tmp2'', ''/tmp/tmp3'') ''a'' (st, w) =
   (None, st, w\<lparr>files := (files w)
          (''/tmp/tmp0'' \<mapsto> ''old/Sans.ttf:a'', ''/tmp/tmp1'' \<mapsto> ''new/Sans.ttf:a'',
           ''/tmp/tmp2'' \<mapsto> [],
           ''/tmp/tmp3'' \<mapsto> (case files w ''/tmp/tmp3'' of None \<Rightarrow> [] | Some c \<Rightarrow> c)
                           @ ''a'' @ [CHR 0x0A] @ ''0'' @ [CHR 0x0A])\<rparr>)"
  "render_glyph sample_tools 256 None (''old/Sans.ttf'', ''new/Sans.ttf'') rc
     (''/tmp/tmp0'', ''/tmp/tmp1'', ''/tmp/tmp2'', ''/tmp/tmp3'') ''b'' (st, w) =
   (None, st, w\<lparr>files := (files w)
          (''/tmp/tmp0'' \<mapsto> ''old/Sans.ttf:b'', ''/tmp/tmp1'' \<mapsto> ''new/Sans.ttf:b'',
           ''/tmp/tmp2'' \<mapsto> [],
           ''/tmp/tmp3'' \<mapsto> (case files w ''/tmp/tmp3'' of None \<Rightarrow> [] | Some c \<Rightarrow> c)
                           @ ''b'' @ [CHR 0x0A] @ ''12'' @ [CHR 0x0A])\<rparr>)"
  "render_glyph sample_tools 256 None (''old/Sans.ttf'', ''new/Sans.ttf'') rc
     (''/tmp/tmp0'', ''/tmp/tmp1'', ''/tmp/tmp2'', ''/tmp/tmp3'') ''c'' (st, w) =
   (None, st\<lparr>untested := untested st @ [''c'']\<rparr>, w)"
  by (simp_all add: render_glyph_def write_file_def append_file_def check_img_info_def
        py_split_def is_space_def Let_def sample_tools_def)

lemmas pipeline_defs = find_rendered_diffs_def build_names_def build_reverse_cmap_def
  cmap_mismatches_def make_tmp_path_def
  os_remove_def readlines_def py_strip_def is_space_def
  py_int_def is_digit_def digits_val_def Let_def

lemma sample_outcome_eval:
  "fst sample_outcome = None"
  "stats (fst (snd sample_outcome)) =
     \<lparr>compared = [(PInt 12, ''b'', ''Sans.ttf'', [])], untested = [''c''],
      unmatched = [(''Sans.ttf'', [''d''], [])],
      unicode_mismatch = [(''Sans.ttf'', [(''b'', (Some 98, Some 66))])]\<rparr>"
  "names (fst (snd sample_outcome)) = Some [''a'', ''b'', ''c'']"
  "files (snd (snd sample_outcome)) = Map.empty"
  by (simp_all add: sample_outcome_def pipeline_defs sample_session_eval sample_glyph_steps
      empty_world_def py_set_def set_minus_def set_inter_def set_eq_list_all
      scenario_font_a_def scenario_font_b_def empty_stats_def str_nat.simps digit_char_def)

lemma faulty_glyph_step:
  "render_glyph faulty_tools 256 None (''old/Sans.ttf'', ''new/Sans.ttf'') rc tmp ''a'' (st, w) =
   (Some AssertionError, st, w)"
  by (cases tmp) (simp add: render_glyph_def Let_def faulty_tools_def sample_tools_def)

lemma faulty_outcome_eval:
  "fst faulty_outcome = Some AssertionError"
  "files (snd (snd faulty_outcome)) =
     [''/tmp/tmp0'' \<mapsto> [], ''/tmp/tmp1'' \<mapsto> [], ''/tmp/tmp2'' \<mapsto> [], ''/tmp/tmp3'' \<mapsto> []]"
  by (simp_all add: faulty_outcome_def pipeline_defs sample_session_eval faulty_glyph_step
      empty_world_def py_set_def set_minus_def set_inter_def set_eq_list_all
      scenario_font_a_def scenario_font_b_def empty_stats_def str_nat.simps digit_char_def)

theorem temp_files_after_run_witness:
  "''/tmp/tmp3'' \<in> set (tmp_paths empty_world)
   \<and> fst sample_outcome = None
   \<and> files (snd (snd sample_outcome)) ''/tmp/tmp3'' = None"
proof -
  have m: "''/tmp/tmp3'' \<in> set (tmp_paths empty_world)"
    by (simp add: tmp_paths_def empty_world_def str_nat.simps digit_char_def)
  have r: "find_rendered_diffs sample_tools 256 None (sample_session, empty_world)
             = (fst sample_outcome, fst (snd sample_outcome), snd (snd sample_outcome))"
    by (simp add: sample_outcome_def)
  from temp_files_after_run [OF r m] sample_outcome_eval(1)
  have "files (snd (snd sample_outcome)) ''/tmp/tmp3'' = None" by blast
  with m sample_outcome_eval(1) show ?thesis by blast
qed

text \<open>
  C9 as stated fails: when the two input generators disagree the run ends in
  \<^verbatim>\<open>AssertionError\<close> and the four temporary files are still there.
\<close>

theorem temp_files_left_counterexample:
  "fst faulty_outcome = Some AssertionError
   \<and> files (snd (snd faulty_outcome)) ''/tmp/tmp0'' = Some []
   \<and> files (snd (snd faulty_outcome)) ''/tmp/tmp1'' = Some []
   \<and> files (snd (snd faulty_outcome)) ''/tmp/tmp2'' = Some []
   \<and> files (snd (snd faulty_outcome)) ''/tmp/tmp3'' = Some []"
  by (simp add: faulty_outcome_eval)

text \<open>
  C2 as the code has it. The constructor sets the four logs of the statistics it is
  given to empty lists, whatever they held. Within the session the four logs only grow:
  \<^verbatim>\<open>build_names\<close>, \<^verbatim>\<open>build_reverse_cmap\<close>, \<^verbatim>\<open>find_area_diffs\<close> and
  \<^verbatim>\<open>find_rendered_diffs\<close> keep every entry that is already there, also when they raise.
\<close>

theorem logs_reset_by_init:
  "stats (init TTFont file_a file_b st ratio) =
     st\<lparr>compared := [], untested := [], unmatched := [], unicode_mismatch := []\<rparr>
   \<and> logs_extend (stats f) (stats (build_names f))
   \<and> (case build_reverse_cmap f of Inl e \<Rightarrow> True | Inr f' \<Rightarrow> logs_extend (stats f) (stats f'))
   \<and> logs_extend (stats f) (stats (snd (find_area_diffs f)))
   \<and> logs_extend (stats f) (stats (fst (snd (find_rendered_diffs T font_size render_path (f, w)))))"
proof (intro conjI)
  show "stats (init TTFont file_a file_b st ratio) =
     st\<lparr>compared := [], untested := [], unmatched := [], unicode_mismatch := []\<rparr>"
    by (simp add: init_def)
  show 1: "logs_extend (stats f) (stats (build_names f))"
    by (simp add: logs_extend_def build_names_logs)
  show "case build_reverse_cmap f of Inl e \<Rightarrow> True | Inr f' \<Rightarrow> logs_extend (stats f) (stats f')"
    by (auto simp: logs_extend_def split: sum.splits dest: build_reverse_cmap_Inr)
  have "find_rendered_diffs T font_size render_path (f, w) =
          (fst (find_rendered_diffs T font_size render_path (f, w)),
           fst (snd (find_rendered_diffs T font_size render_path (f, w))),
           snd (snd (find_rendered_diffs T font_size render_path (f, w))))"
    by simp
  from find_rendered_diffs_logs [OF this]
  show "logs_extend (stats f) (stats (fst (snd (find_rendered_diffs T font_size render_path (f, w)))))" .
  have "unmatched (stats (snd (find_area_diffs f))) = unmatched (stats (build_names f))"
    "untested (stats (snd (find_area_diffs f))) = untested (stats (build_names f))"
    "unicode_mismatch (stats (snd (find_area_diffs f))) = unicode_mismatch (stats (build_names f))"
    by (simp_all add: find_area_diffs_def Let_def split: option.splits prod.splits)
  with 1 find_area_diffs_appends_nothing [of f]
  show "logs_extend (stats f) (stats (snd (find_area_diffs f)))"
    by (simp add: logs_extend_def build_names_logs)
qed

theorem logs_reset_by_init_witness:
  "stats sample_session = empty_stats
   \<and> logs_extend (stats sample_session) (stats (fst (snd sample_outcome)))"
proof -
  have "stats sample_session = sample_stats\<lparr>compared := [], untested := [], unmatched := [],
          unicode_mismatch := []\<rparr>"
    unfolding sample_session_def using logs_reset_by_init by blast
  then have "stats sample_session = empty_stats" by (simp add: sample_stats_def empty_stats_def)
  moreover have "logs_extend (stats sample_session) (stats (fst (snd sample_outcome)))"
    unfolding sample_outcome_def using logs_reset_by_init by blast
  ultimately show ?thesis by blast
qed

text \<open>
  C2 as stated fails: a session created over populated statistics starts with empty
  logs, and after a rendered diff the logs hold the entries of that run only.
\<close>

theorem logs_reset_counterexample:
  "(PInt 7, ''x'', ''Sans.ttf'', [PInt 1, PInt 8]) \<in> set (compared sample_stats)
   \<and> ''f'' \<in> set (untested sample_stats)
   \<and> compared (stats sample_session) = []
   \<and> untested (stats sample_session) = []
   \<and> fst sample_outcome = None
   \<and> compared (stats (fst (snd sample_outcome))) = [(PInt 12, ''b'', ''Sans.ttf'', [])]
   \<and> untested (stats (fst (snd sample_outcome))) = [''c'']"
  by (simp add: sample_outcome_eval sample_session_eval sample_stats_def empty_stats_def)

section \<open>The report\<close>

lemmas dump_defs = dump_report_def shown_records_def record_key_def slice_to_def row_fmt_def
  row_line_def untested_lines_def unmatched_lines_def mismatch_lines_def str_unival_def
  fmt_0x04X_def str_list_def py_repr_def repr_char_def str_int_def digit_char_def Let_def

lemma replicate_numeral_unfold:
  "replicate (numeral k) x = x # replicate (pred_numeral k) x"
  by (simp add: numeral_eq_Suc)

lemma sample_report:
  "dump_report sample_float_str sample_stats {''x'', ''f''} 1 True True =
     Inr [''2 differences in glyph shape'',
          ''Serif.ttf a 12 (1 vs 13)'',
          [],
          ''not tested (unreachable?): f'',
          [],
          ''Glyph coverage doesn'' @ [CHR 0x27] @ ''t match in Sans.ttf'',
          ''  in A but not B: ['' @ [CHR 0x27] @ ''d'' @ [CHR 0x27] @ '']'',
          ''  in B but not A: []'',
          [],
          ''Glyph unicode values don'' @ [CHR 0x27] @ ''t match in Sans.ttf'',
          ''  b: 0x0062 in A, 0x0042 in B'',
          []]"
  by (simp add: dump_defs sample_stats_def str_nat.simps hex_nat.simps replicate_numeral_unfold)

lemma set_shown_records:
  "set (shown_records st wl) = {s \<in> set (compared st). fst (snd s) \<notin> wl}"
  by (auto simp: shown_records_def)

lemma length_shown_records:
  "length (shown_records st wl) = length (filter (\<lambda>s. fst (snd s) \<notin> wl) (compared st))"
  by (simp add: shown_records_def)

lemma set_slice_to: "set (slice_to n xs) \<subseteq> set xs"
  by (auto simp: slice_to_def dest: in_set_takeD)

lemma length_slice_to: "length (slice_to n xs) \<le> length xs"
  by (simp add: slice_to_def)

lemma slice_to_all: "int (length xs) \<le> n \<Longrightarrow> slice_to n xs = xs"
  by (simp add: slice_to_def)

text \<open>
  What \<^verbatim>\<open>fmt % line\<close> gives for the four formats: the row when the tuple has as many
  components as the format has conversions, \<^verbatim>\<open>TypeError\<close> otherwise.
\<close>

lemma py_format_row_fmt:
  "py_format (row_fmt False False) args =
     (case args of [a, b] \<Rightarrow> Inr (a @ '' '' @ b) | _ \<Rightarrow> Inl TypeError)"
  "py_format (row_fmt False True) args =
     (case args of [a, b, c] \<Rightarrow> Inr (a @ '' '' @ b @ '' '' @ c) | _ \<Rightarrow> Inl TypeError)"
  "py_format (row_fmt True False) args =
     (case args of [a, b, c, d] \<Rightarrow> Inr (a @ '' '' @ b @ '' ('' @ c @ '' vs '' @ d @ '')'')
      | _ \<Rightarrow> Inl TypeError)"
  "py_format (row_fmt True True) args =
     (case args of [a, b, c, d, e] \<Rightarrow>
        Inr (a @ '' '' @ b @ '' '' @ c @ '' ('' @ d @ '' vs '' @ e @ '')'')
      | _ \<Rightarrow> Inl TypeError)"
  by (simp_all add: row_fmt_def split: list.splits)

lemma format_row_ok:
  assumes "py_format (row_fmt iv mf) (row_line fs mf s) = Inr row"
  shows "row = row_text fs iv mf s \<and> length (snd (snd (snd s))) = (if iv then 2 else 0)"
proof -
  obtain metric name src vals where s: "s = (metric, name, src, vals)" by (cases s) auto
  show ?thesis using assms unfolding s
    by (cases iv; cases mf)
       (auto simp: py_format_row_fmt row_line_def row_text_def
          simp del: py_format.simps split: list.splits)
qed

lemma format_row_arity:
  assumes "length (snd (snd (snd s))) = (if iv then 2 else 0)"
  shows "py_format (row_fmt iv mf) (row_line fs mf s) = Inr (row_text fs iv mf s)"
proof -
  obtain metric name src vals where s: "s = (metric, name, src, vals)" by (cases s) auto
  show ?thesis using assms unfolding s
    by (cases iv; cases mf)
       (auto simp: py_format_row_fmt row_line_def row_text_def length_Suc_conv numeral_2_eq_2
          simp del: py_format.simps split: list.splits)
qed

lemma format_row_type_error:
  assumes "length (snd (snd (snd s))) \<noteq> (if iv then 2 else 0)"
  shows "py_format (row_fmt iv mf) (row_line fs mf s) = Inl TypeError"
proof -
  obtain metric name src vals where s: "s = (metric, name, src, vals)" by (cases s) auto
  show ?thesis using assms unfolding s
    by (cases iv; cases mf)
       (auto simp: py_format_row_fmt row_line_def
          simp del: py_format.simps split: list.splits)
qed

lemma format_rows_ok:
  "format_rows (row_fmt iv mf) (map (row_line fs mf) ss) = Inr rows \<Longrightarrow>
     rows = map (row_text fs iv mf) ss \<and> (\<forall>s\<in>set ss. length (snd (snd (snd s))) = (if iv then 2 else 0))"
proof (induction ss arbitrary: rows)
  case Nil
  then show ?case by simp
next
  case (Cons s ss)
  from Cons.prems obtain row rest where
    r: "py_format (row_fmt iv mf) (row_line fs mf s) = Inr row"
    and rs: "format_rows (row_fmt iv mf) (map (row_line fs mf) ss) = Inr rest"
    and rows: "rows = row # rest"
    by (auto split: sum.splits)
  from format_row_ok [OF r] Cons.IH [OF rs] rows show ?case by simp
qed

lemma dump_report_shape:
  assumes "dump_report fs st wl n iv mf = Inr report"
  shows "report =
           (str_int (int (length (shown_records st wl))) @ '' differences in glyph shape'')
           # map (row_text fs iv mf) (slice_to n (shown_records st wl))
           @ [[]] @ untested_lines st
           @ [[]] @ concat (map unmatched_lines (unmatched st))
           @ [[]] @ concat (map mismatch_lines (unicode_mismatch st)) @ [[]]"
    and "\<forall>s\<in>set (slice_to n (shown_records st wl)). length (snd (snd (snd s))) = (if iv then 2 else 0)"
proof -
  from assms obtain rows where
    rows: "format_rows (row_fmt iv mf) (map (row_line fs mf) (slice_to n (shown_records st wl))) = Inr rows"
    and rep: "report = [str_int (int (length (shown_records st wl))) @ '' differences in glyph shape'']
           @ rows @ [[]] @ untested_lines st
           @ [[]] @ concat (map unmatched_lines (unmatched st))
           @ [[]] @ concat (map mismatch_lines (unicode_mismatch st)) @ [[]]"
    by (auto simp: dump_report_def Let_def split: sum.splits)
  from format_rows_ok [OF rows] rep
  show "report =
           (str_int (int (length (shown_records st wl))) @ '' differences in glyph shape'')
           # map (row_text fs iv mf) (slice_to n (shown_records st wl))
           @ [[]] @ untested_lines st
           @ [[]] @ concat (map unmatched_lines (unmatched st))
           @ [[]] @ concat (map mismatch_lines (unicode_mismatch st)) @ [[]]"
    and "\<forall>s\<in>set (slice_to n (shown_records st wl)). length (snd (snd (snd s))) = (if iv then 2 else 0)"
    by simp_all
qed

lemma digit_char_decimal: "d < 10 \<Longrightarrow> digit_char d \<in> set ''0123456789''"
proof -
  assume "d < 10"
  then have "d = 0 \<or> d = 1 \<or> d = 2 \<or> d = 3 \<or> d = 4 \<or> d = 5 \<or> d = 6 \<or> d = 7 \<or> d = 8 \<or> d = 9"
    by arith
  then show ?thesis by (auto simp: digit_char_def)
qed

lemma str_nat_decimal: "set (str_nat n) \<subseteq> set ''0123456789''"
proof (induction n rule: str_nat.induct)
  case (1 n)
  show ?case
  proof (cases "n < 10")
    case True
    then show ?thesis using digit_char_decimal [of n] by (subst str_nat.simps) simp
  next
    case False
    have "n mod 10 < 10" by simp
    from digit_char_decimal [OF this] 1 [OF False] False show ?thesis
      by (subst str_nat.simps) simp
  qed
qed

lemma str_int_no_newline: "CHR 0x0A \<notin> set (str_int i)"
  using str_nat_decimal [of "nat i"] str_nat_decimal [of "nat (- i)"]
  by (auto simp: str_int_def)

lemma takeWhile_upto: "c \<notin> set h \<Longrightarrow> takeWhile (\<lambda>x. x \<noteq> c) (h @ c # r) = h"
  by (induction h) auto

text \<open>
  C10. When \<^verbatim>\<open>dump\<close> returns, the first line of its text is the number of
  \<^verbatim>\<open>compared\<close> records whose glyph name is not in the whitelist, followed by
  \<^verbatim>\<open>differences in glyph shape\<close>. \<^verbatim>\<open>out_lines\<close> does not occur in that number: it only
  bounds the rows printed after the header, which are never more than the count.
\<close>

theorem dump_header_count:
  assumes "dump fs st wl n iv mf = Inr text"
  shows "(\<exists>rows rest.
           dump_report fs st wl n iv mf =
             Inr ((str_int (int (length (filter (\<lambda>s. fst (snd s) \<notin> wl) (compared st))))
                   @ '' differences in glyph shape'') # rows @ [] # rest)
           \<and> length rows = length (slice_to n (shown_records st wl))
           \<and> length rows \<le> length (filter (\<lambda>s. fst (snd s) \<notin> wl) (compared st)))
         \<and> takeWhile (\<lambda>c. c \<noteq> CHR 0x0A) text =
             str_int (int (length (filter (\<lambda>s. fst (snd s) \<notin> wl) (compared st))))
             @ '' differences in glyph shape''"
proof -
  let ?k = "length (filter (\<lambda>s. fst (snd s) \<notin> wl) (compared st))"
  let ?header = "str_int (int ?k) @ '' differences in glyph shape''"
  let ?rows = "map (row_text fs iv mf) (slice_to n (shown_records st wl))"
  let ?rest = "untested_lines st @ [[]] @ concat (map unmatched_lines (unmatched st))
           @ [[]] @ concat (map mismatch_lines (unicode_mismatch st)) @ [[]]"
  from assms obtain report where
    rep: "dump_report fs st wl n iv mf = Inr report" and joined: "text = join [CHR 0x0A] report"
    by (auto simp: dump_def split: sum.splits)
  have shape: "report = ?header # ?rows @ [] # ?rest"
    using dump_report_shape(1) [OF rep] by (simp add: length_shown_records)
  obtain y ys where tl: "?rows @ [] # ?rest = y # ys" by (cases "?rows @ [] # ?rest") auto
  have "text = ?header @ CHR 0x0A # join [CHR 0x0A] (y # ys)"
    unfolding joined shape tl by simp
  moreover have "CHR 0x0A \<notin> set ?header" using str_int_no_newline by simp
  ultimately have first: "takeWhile (\<lambda>c. c \<noteq> CHR 0x0A) text = ?header"
    using takeWhile_upto [of "CHR 0x0A" ?header] by metis
  have "length ?rows \<le> ?k"
    using length_slice_to [of n "shown_records st wl"] by (simp add: length_shown_records)
  then have "\<exists>rows rest. dump_report fs st wl n iv mf = Inr (?header # rows @ [] # rest)
           \<and> length rows = length (slice_to n (shown_records st wl)) \<and> length rows \<le> ?k"
    using rep shape by (intro exI [of _ ?rows] exI [of _ ?rest]) simp
  with first show ?thesis by (rule conjI [rotated])
qed

theorem dump_header_count_witness:
  "dump sample_float_str sample_stats {''x'', ''f''} 1 True True = Inr sample_text
   \<and> takeWhile (\<lambda>c. c \<noteq> CHR 0x0A) sample_text = ''2 differences in glyph shape''
   \<and> length (filter (\<lambda>s. fst (snd s) \<notin> {''x'', ''f''}) (compared sample_stats)) = 2"
proof -
  have d: "dump sample_float_str sample_stats {''x'', ''f''} 1 True True = Inr sample_text"
    by (simp add: dump_def sample_report sample_text_def)
  have k: "length (filter (\<lambda>s. fst (snd s) \<notin> {''x'', ''f''}) (compared sample_stats)) = 2"
    by (simp add: sample_stats_def)
  note tw = dump_header_count [OF d, THEN conjunct2]
  have h: "str_int (int (length (filter (\<lambda>s. fst (snd s) \<notin> {''x'', ''f''}) (compared sample_stats))))
       @ '' differences in glyph shape'' = ''2 differences in glyph shape''"
    unfolding k by (simp add: str_int_def str_nat.simps digit_char_def)
  show ?thesis using d k tw [unfolded h] by (intro conjI)
qed

text \<open>
  C8 as the code has it. Row \<open>i\<close> of the report (after the header) prints record \<open>i\<close>
  of the sorted, reversed and truncated list: the font label first and then the glyph
  name when \<^verbatim>\<open>multiple_fonts\<close> is set, the glyph name alone otherwise, then the metric,
  and with \<^verbatim>\<open>include_vals\<close> the two raw values of the record in parentheses. A report
  that is returned has given every printed record as many fields as its format takes.
\<close>

theorem dump_row_format:
  assumes "dump_report fs st wl n iv mf = Inr report"
    and "i < length (slice_to n (shown_records st wl))"
    and "slice_to n (shown_records st wl) ! i = (metric, name, src, vals)"
  shows "report ! Suc i =
           (if mf then src @ '' '' else []) @ name @ '' '' @ py_str fs metric
           @ (if iv then '' ('' @ py_str fs (vals ! 0) @ '' vs '' @ py_str fs (vals ! 1) @ '')''
              else [])
         \<and> length vals = (if iv then 2 else 0)"
proof -
  let ?shown = "slice_to n (shown_records st wl)"
  note shape = dump_report_shape [OF assms(1)]
  have "report ! Suc i = (map (row_text fs iv mf) ?shown @ [[]] @ untested_lines st
           @ [[]] @ concat (map unmatched_lines (unmatched st))
           @ [[]] @ concat (map mismatch_lines (unicode_mismatch st)) @ [[]]) ! i"
    by (subst shape(1)) simp
  also have "\<dots> = map (row_text fs iv mf) ?shown ! i"
    using assms(2) by (simp add: nth_append)
  also have "\<dots> = row_text fs iv mf (metric, name, src, vals)"
    using assms(2,3) by simp
  finally have row: "report ! Suc i = row_text fs iv mf (metric, name, src, vals)" .
  have "(metric, name, src, vals) \<in> set ?shown"
    using assms(2,3) by (metis nth_mem)
  with shape(2) have "length vals = (if iv then 2 else 0)" by fastforce
  with row show ?thesis by (simp add: row_text_def)
qed

lemma sample_shown:
  "slice_to 1 (shown_records sample_stats {''x'', ''f''}) = [(PInt 12, ''a'', ''Serif.ttf'', [PInt 1, PInt 13])]"
  by (simp add: dump_defs sample_stats_def)

theorem dump_row_format_witness:
  "dump_report sample_float_str sample_stats {''x'', ''f''} 1 True True =
     Inr [''2 differences in glyph shape'',
          ''Serif.ttf a 12 (1 vs 13)'',
          [],
          ''not tested (unreachable?): f'',
          [],
          ''Glyph coverage doesn'' @ [CHR 0x27] @ ''t match in Sans.ttf'',
          ''  in A but not B: ['' @ [CHR 0x27] @ ''d'' @ [CHR 0x27] @ '']'',
          ''  in B but not A: []'',
          [],
          ''Glyph unicode values don'' @ [CHR 0x27] @ ''t match in Sans.ttf'',
          ''  b: 0x0062 in A, 0x0042 in B'',
          []]
   \<and> 0 < length (slice_to 1 (shown_records sample_stats {''x'', ''f''}))
   \<and> slice_to 1 (shown_records sample_stats {''x'', ''f''}) ! 0
       = (PInt 12, ''a'', ''Serif.ttf'', [PInt 1, PInt 13])
   \<and> ''Serif.ttf a 12 (1 vs 13)'' =
       ''Serif.ttf'' @ '' '' @ ''a'' @ '' '' @ py_str sample_float_str (PInt 12)
       @ '' ('' @ py_str sample_float_str (PInt 1) @ '' vs '' @ py_str sample_float_str (PInt 13) @ '')''"
proof -
  have h1: "0 < length (slice_to 1 (shown_records sample_stats {''x'', ''f''}))"
    and h2: "slice_to 1 (shown_records sample_stats {''x'', ''f''}) ! 0
       = (PInt 12, ''a'', ''Serif.ttf'', [PInt 1, PInt 13])"
    by (simp_all add: sample_shown)
  from dump_row_format [OF sample_report h1 h2]
  have "''Serif.ttf a 12 (1 vs 13)'' =
       ''Serif.ttf'' @ '' '' @ ''a'' @ '' '' @ py_str sample_float_str (PInt 12)
       @ '' ('' @ py_str sample_float_str (PInt 1) @ '' vs '' @ py_str sample_float_str (PInt 13) @ '')''"
    by simp
  with sample_report h1 h2 show ?thesis by blast
qed

text \<open>
  C8 as stated fails: with \<^verbatim>\<open>multiple_fonts\<close> the row starts with the font label and
  the glyph name comes second, as the comment in the loop says
  (\<^verbatim>\<open>print <font> <glyph> <vals>\<close>).
\<close>

theorem dump_label_first_counterexample:
  "dump_report sample_float_str
     (empty_stats\<lparr>compared := [(PInt 10, ''b'', ''Sans.ttf'', [PInt 50, PInt 60])]\<rparr>)
     {} 10 True True =
   Inr [''1 differences in glyph shape'', ''Sans.ttf b 10 (50 vs 60)'', [], [], [], []]"
  by (simp add: dump_defs empty_stats_def str_nat.simps)

text \<open>
  The format and the records have to agree: records of the area diff carry two raw
  values, and \<^verbatim>\<open>dump\<close> without \<^verbatim>\<open>include_vals\<close> raises \<^verbatim>\<open>TypeError\<close> on them (not all
  arguments converted).
\<close>

lemma dump_area_records_type_error:
  "dump sample_float_str sample_stats {} 10 False True = Inl TypeError"
  by (simp add: dump_def dump_defs sample_stats_def str_nat.simps)

text \<open>
  C4 as the code has it. The whitelist filters the \<^verbatim>\<open>compared\<close> records only: every
  diff row of the report prints a record of \<^verbatim>\<open>compared\<close> whose glyph name is not in the
  whitelist, the header counts exactly these records, and when \<^verbatim>\<open>out_lines\<close> does not
  truncate, every such record is printed. The three sections after the rows are built
  from \<^verbatim>\<open>untested\<close>, \<^verbatim>\<open>unmatched\<close> and \<^verbatim>\<open>unicode_mismatch\<close> alone, whatever the
  whitelist.
\<close>

theorem dump_whitelist:
  assumes "dump_report fs st wl n iv mf = Inr report"
  shows "\<exists>shown.
           report =
             (str_int (int (length (filter (\<lambda>s. fst (snd s) \<notin> wl) (compared st))))
              @ '' differences in glyph shape'')
             # map (row_text fs iv mf) shown
             @ [] # untested_lines st
             @ [] # concat (map unmatched_lines (unmatched st))
             @ [] # concat (map mismatch_lines (unicode_mismatch st)) @ [[]]
         \<and> set shown \<subseteq> set (compared st)
         \<and> (\<forall>s\<in>set shown. fst (snd s) \<notin> wl)
         \<and> (int (length (compared st)) \<le> n \<longrightarrow>
              set shown = {s \<in> set (compared st). fst (snd s) \<notin> wl})"
proof -
  let ?shown = "slice_to n (shown_records st wl)"
  have sub: "set ?shown \<subseteq> {s \<in> set (compared st). fst (snd s) \<notin> wl}"
    using set_slice_to [of n "shown_records st wl"] by (simp add: set_shown_records)
  have all: "set ?shown = {s \<in> set (compared st). fst (snd s) \<notin> wl}"
    if "int (length (compared st)) \<le> n"
  proof -
    have "length (shown_records st wl) \<le> length (compared st)"
      by (simp add: length_shown_records)
    with that have "int (length (shown_records st wl)) \<le> n" by linarith
    then show ?thesis by (simp add: slice_to_all set_shown_records)
  qed
  show ?thesis
  proof (intro exI [of _ ?shown] conjI impI)
    show "report =
             (str_int (int (length (filter (\<lambda>s. fst (snd s) \<notin> wl) (compared st))))
              @ '' differences in glyph shape'')
             # map (row_text fs iv mf) ?shown
             @ [] # untested_lines st
             @ [] # concat (map unmatched_lines (unmatched st))
             @ [] # concat (map mismatch_lines (unicode_mismatch st)) @ [[]]"
      using dump_report_shape(1) [OF assms] by (simp add: length_shown_records)
    show "set ?shown \<subseteq> set (compared st)" using sub by blast
    show "\<forall>s\<in>set ?shown. fst (snd s) \<notin> wl" using sub by blast
    show "set ?shown = {s \<in> set (compared st). fst (snd s) \<notin> wl}"
      if "int (length (compared st)) \<le> n" using all [OF that] .
  qed
qed

theorem dump_whitelist_witness:
  "dump_report sample_float_str sample_stats {''x'', ''f''} 1 True True =
     Inr [''2 differences in glyph shape'',
          ''Serif.ttf a 12 (1 vs 13)'',
          [],
          ''not tested (unreachable?): f'',
          [],
          ''Glyph coverage doesn'' @ [CHR 0x27] @ ''t match in Sans.ttf'',
          ''  in A but not B: ['' @ [CHR 0x27] @ ''d'' @ [CHR 0x27] @ '']'',
          ''  in B but not A: []'',
          [],
          ''Glyph unicode values don'' @ [CHR 0x27] @ ''t match in Sans.ttf'',
          ''  b: 0x0062 in A, 0x0042 in B'',
          []]
   \<and> (\<exists>shown. set shown \<subseteq> set (compared sample_stats) \<and> list_all (\<lambda>s. fst (snd s) \<notin> {''x'', ''f''}) shown)"
proof -
  from dump_whitelist [OF sample_report] obtain shown where
    "set shown \<subseteq> set (compared sample_stats)" "\<forall>s\<in>set shown. fst (snd s) \<notin> {''x'', ''f''}"
    by blast
  then have "\<exists>shown. set shown \<subseteq> set (compared sample_stats)
      \<and> list_all (\<lambda>s. fst (snd s) \<notin> {''x'', ''f''}) shown"
    unfolding list_all_iff by blast
  with sample_report show ?thesis by blast
qed

text \<open>
  C4 as stated fails: a whitelisted name in \<^verbatim>\<open>untested\<close> is printed.
\<close>

theorem dump_whitelist_counterexample:
  "dump_report sample_float_str (empty_stats\<lparr>untested := [''f'']\<rparr>) {''f''} 10 False False =
   Inr [''0 differences in glyph shape'', [], ''not tested (unreachable?): f'', [], [], []]"
  by (simp add: dump_defs empty_stats_def str_nat.simps)

section \<open>The log of the rendered diff\<close>
















end
